theory Spec2Isabelle
  imports Main
begin

section \<open>JavaScript values and strings\<close>

text \<open>
  The error handed to \<open>parseGeminiError\<close> has type \<open>any\<close>. The values it inspects are
  modelled by \<open>jsval\<close>: the primitives and plain objects as association lists from
  property names to values. A number is an integer or NaN (a status code is any value
  of type number); fractions and the infinities, which are truthy and differ from 429
  like any other integer, are not distinguished. Strings are lists of bytes, the UTF-8
  encoding of the text.
\<close>

datatype jsnumber = Integer int | NaN

datatype jsval =
    JUndefined
  | JNull
  | JBool bool
  | JNum jsnumber
  | JStr string
  | JObj "(string \<times> jsval) list"

text \<open>The truthiness test of \<open>&&\<close>, \<open>||\<close>, \<open>!\<close> and \<open>if\<close>.\<close>

fun truthy :: "jsval \<Rightarrow> bool" where
  "truthy JUndefined = False"
| "truthy JNull = False"
| "truthy (JBool b) = b"
| "truthy (JNum n) = (n \<noteq> Integer 0 \<and> n \<noteq> NaN)"
| "truthy (JStr s) = (s \<noteq> [])"
| "truthy (JObj fs) = True"

text \<open>
  Property read \<open>v.k\<close> for the keys the program reads (\<open>error\<close>, \<open>message\<close>, \<open>code\<close>,
  \<open>status\<close> and the word fields). On an object it is the stored value or \<open>undefined\<close>;
  on a boolean, number or string none of these keys exists. On \<open>null\<close> and \<open>undefined\<close>
  JavaScript throws: every use of \<open>getProp\<close> below is behind the source's own truthiness
  guard, and the one unguarded read (the decoded payload) tests for \<open>null\<close> first.
\<close>

fun getProp :: "jsval \<Rightarrow> string \<Rightarrow> jsval" where
  "getProp (JObj fs) k = (case map_of fs k of None \<Rightarrow> JUndefined | Some v \<Rightarrow> v)"
| "getProp v k = JUndefined"

fun typeof_string :: "jsval \<Rightarrow> bool" where
  "typeof_string (JStr s) = True"
| "typeof_string v = False"

fun typeof_number :: "jsval \<Rightarrow> bool" where
  "typeof_number (JNum n) = True"
| "typeof_number v = False"

fun str_of :: "jsval \<Rightarrow> string" where
  "str_of (JStr s) = s"
| "str_of v = []"

fun num_of :: "jsval \<Rightarrow> jsnumber" where
  "num_of (JNum n) = n"
| "num_of v = NaN"

text \<open>
  Letter case. The ASCII letters change case; so do the characters outside ASCII whose
  other case contains an ASCII letter, listed here with their UTF-8 bytes: for
  \<open>toUpperCase\<close> U+017F, U+0131, U+00DF, the ligatures U+FB00 to U+FB06, U+0149, U+01F0
  and U+1E96 to U+1E9A; for \<open>toLowerCase\<close> U+212A and U+0130. Every other character
  outside ASCII keeps its bytes: its other case is outside ASCII too.
\<close>

definition lower_char :: "char \<Rightarrow> char" where
  "lower_char c =
     (let n = (of_char c :: nat) in if 65 \<le> n \<and> n \<le> 90 then char_of (n + 32) else c)"

definition upper_char :: "char \<Rightarrow> char" where
  "upper_char c =
     (let n = (of_char c :: nat) in if 97 \<le> n \<and> n \<le> 122 then char_of (n - 32) else c)"

definition upper_special :: "(string \<times> string) list" where
  "upper_special =
     [([CHR 0xC5, CHR 0xBF], ''S''), ([CHR 0xC4, CHR 0xB1], ''I''), ([CHR 0xC3, CHR 0x9F], ''SS''),
      ([CHR 0xEF, CHR 0xAC, CHR 0x80], ''FF''), ([CHR 0xEF, CHR 0xAC, CHR 0x81], ''FI''),
      ([CHR 0xEF, CHR 0xAC, CHR 0x82], ''FL''), ([CHR 0xEF, CHR 0xAC, CHR 0x83], ''FFI''),
      ([CHR 0xEF, CHR 0xAC, CHR 0x84], ''FFL''), ([CHR 0xEF, CHR 0xAC, CHR 0x85], ''ST''),
      ([CHR 0xEF, CHR 0xAC, CHR 0x86], ''ST''),
      ([CHR 0xC5, CHR 0x89], [CHR 0xCA, CHR 0xBC] @ ''N''),
      ([CHR 0xC7, CHR 0xB0], ''J'' @ [CHR 0xCC, CHR 0x8C]),
      ([CHR 0xE1, CHR 0xBA, CHR 0x96], ''H'' @ [CHR 0xCC, CHR 0xB1]),
      ([CHR 0xE1, CHR 0xBA, CHR 0x97], ''T'' @ [CHR 0xCC, CHR 0x88]),
      ([CHR 0xE1, CHR 0xBA, CHR 0x98], ''W'' @ [CHR 0xCC, CHR 0x8A]),
      ([CHR 0xE1, CHR 0xBA, CHR 0x99], ''Y'' @ [CHR 0xCC, CHR 0x8A]),
      ([CHR 0xE1, CHR 0xBA, CHR 0x9A], ''A'' @ [CHR 0xCA, CHR 0xBE])]"

definition lower_special :: "(string \<times> string) list" where
  "lower_special =
     [([CHR 0xE2, CHR 0x84, CHR 0xAA], ''k''), ([CHR 0xC4, CHR 0xB0], ''i'' @ [CHR 0xCC, CHR 0x87])]"

text \<open>
  The string with every listed character replaced and every other byte mapped by \<open>f\<close>.
\<close>

function map_case :: "(string \<times> string) list \<Rightarrow> (char \<Rightarrow> char) \<Rightarrow> string \<Rightarrow> string" where
  "map_case table f s =
     (if s = [] then []
      else case find (\<lambda>e. fst e \<noteq> [] \<and> take (length (fst e)) s = fst e) table of
             None \<Rightarrow> f (hd s) # map_case table f (tl s)
           | Some e \<Rightarrow> snd e @ map_case table f (drop (length (fst e)) s))"
  by pat_completeness auto
termination
  by (relation "measure (\<lambda>(table, f, s). length s)") (auto simp: find_Some_iff)

definition toLowerCase :: "string \<Rightarrow> string" where
  "toLowerCase s = map_case lower_special lower_char s"

definition toUpperCase :: "string \<Rightarrow> string" where
  "toUpperCase s = map_case upper_special upper_char s"

text \<open>\<open>s.includes(sub)\<close>: \<open>sub\<close> occurs in \<open>s\<close> as a contiguous run.\<close>

fun str_includes :: "string \<Rightarrow> string \<Rightarrow> bool" where
  "str_includes [] sub = (sub = [])"
| "str_includes (c # cs) sub = (take (length sub) (c # cs) = sub \<or> str_includes cs sub)"

text \<open>Decimal digits of an integer, for \<open>String(error)\<close>.\<close>

fun string_of_nat :: "nat \<Rightarrow> string" where
  "string_of_nat n =
     (if n < 10 then [char_of (48 + n)]
      else string_of_nat (n div 10) @ [char_of (48 + n mod 10)])"

definition string_of_int :: "int \<Rightarrow> string" where
  "string_of_int i = (if i < 0 then CHR ''-'' # string_of_nat (nat (- i)) else string_of_nat (nat i))"

text \<open>\<open>String(v)\<close>; a plain object prints as \<open>[object Object]\<close>.\<close>

fun String :: "jsval \<Rightarrow> string" where
  "String JUndefined = ''undefined''"
| "String JNull = ''null''"
| "String (JBool b) = (if b then ''true'' else ''false'')"
| "String (JNum (Integer n)) = string_of_int n"
| "String (JNum NaN) = ''NaN''"
| "String (JStr s) = s"
| "String (JObj fs) = ''[object Object]''"

section \<open>Error classification: \<open>parseGeminiError\<close>\<close>

record parsed_error =
  detailedErrorMessage :: string
  statusCode :: "jsnumber option"
  geminiErrorStatus :: "string option"
  isQuotaExhaustedError :: bool
  isRateLimitErrorForRetry :: bool
  displayErrorMsg :: string

text \<open>
  Lines 329-351: the four variables the function fills in. The three shapes are tried in
  turn: a provider error object \<open>{error: {message, code, status}}\<close>, a general error
  object \<open>{message, status}\<close>, anything else through \<open>String\<close>. The result is
  (detailedErrorMessage, statusCode, geminiErrorStatus, displayErrorMsg).
\<close>

definition read_error :: "jsval \<Rightarrow> string \<times> jsnumber option \<times> string option \<times> string" where
  "read_error error =
     (if truthy error \<and> truthy (getProp error ''error'')
           \<and> typeof_string (getProp (getProp error ''error'') ''message'')
      then
        (toLowerCase (str_of (getProp (getProp error ''error'') ''message'')),
         (if typeof_number (getProp (getProp error ''error'') ''code'')
          then Some (num_of (getProp (getProp error ''error'') ''code'')) else None),
         (if typeof_string (getProp (getProp error ''error'') ''status'')
          then Some (toUpperCase (str_of (getProp (getProp error ''error'') ''status'')))
          else None),
         str_of (getProp (getProp error ''error'') ''message''))
      else if truthy error \<and> typeof_string (getProp error ''message'')
      then
        (toLowerCase (str_of (getProp error ''message'')),
         (if truthy (getProp error ''status'') \<and> typeof_number (getProp error ''status'')
          then Some (num_of (getProp error ''status'')) else None),
         None,
         str_of (getProp error ''message''))
      else (toLowerCase (String error), None, None, String error))"

text \<open>\<open>!statusCode\<close>: the variable is \<open>undefined\<close>, the number 0 or NaN.\<close>

definition not_statusCode :: "jsnumber option \<Rightarrow> bool" where
  "not_statusCode sc = (case sc of None \<Rightarrow> True | Some n \<Rightarrow> n = Integer 0 \<or> n = NaN)"

text \<open>Lines 353-357, on the variables read above.\<close>

definition quota_rule :: "jsnumber option \<Rightarrow> string option \<Rightarrow> string \<Rightarrow> bool" where
  "quota_rule sc st msg \<longleftrightarrow>
     (sc = Some (Integer 429) \<and> (str_includes msg ''quota'' \<or> st = Some ''RESOURCE_EXHAUSTED''))
     \<or> (not_statusCode sc \<and> str_includes msg ''quota''
          \<and> (str_includes msg ''exceeded'' \<or> str_includes msg ''exhausted''))
     \<or> st = Some ''RESOURCE_EXHAUSTED''"

definition parseGeminiError :: "jsval \<Rightarrow> parsed_error" where
  "parseGeminiError error =
     (case read_error error of (msg, sc, st, disp) \<Rightarrow>
        \<lparr> detailedErrorMessage = msg, statusCode = sc, geminiErrorStatus = st,
          isQuotaExhaustedError = quota_rule sc st msg,
          isRateLimitErrorForRetry = (sc = Some (Integer 429) \<and> \<not> quota_rule sc st msg),
          displayErrorMsg = disp \<rparr>)"

section \<open>Notifications and the shared state\<close>

text \<open>
  The user-facing messages are Korean template strings; each template is a constructor
  here, with the values the template interpolates. \<open>feature\<close> is the
  \<open>featureDescription\<close> of a call site (lines 377 and 675), built from the word.
\<close>

datatype toast_type = Success | Error | Warning | Info

datatype feature = WordInfoLookup string | WordImageGeneration string

datatype toast_text =
    QuotaCooldownStarted "feature option" int
  | QuotaCooldownFinished "feature option"
  | ApiKeyRequired
  | ImageApiKeyRequired
  | SkippedForQuota feature
  | FieldsMissingRetrying feature int int
  | FieldsMissingAllFailed feature
  | ImageCompleted feature
  | ImageMissingRetrying string
  | ImageMissingAllFailed string
  | RateLimitRetrying feature int
  | ErrorRetrying feature int string
  | RateLimitFinal feature
  | ErrorFinal feature string
  | UnexpectedFlow feature

text \<open>
  The module-level variables \<open>ai\<close> (only whether it is non-null),
  \<open>isCurrentlyGeminiQuotaExhausted\<close> and \<open>quotaCooldownTimeoutId\<close>, and what the
  functions do to their surroundings: the one-shot timers pending from
  \<open>window.setTimeout\<close> (identifier, delay, the feature name the callback captured), the
  next timer identifier, the messages handed to the \<open>addToast\<close> callback, the delays
  of the awaited back-off sleeps, the number of provider calls made, and the arguments
  handed to \<open>setGlobalLoading\<close>.
\<close>

record world =
  ai :: bool
  isCurrentlyGeminiQuotaExhausted :: bool
  quotaCooldownTimeoutId :: "nat option"
  pendingTimers :: "(nat \<times> int \<times> feature option) list"
  nextTimerId :: nat
  toasts :: "(toast_text \<times> toast_type) list"
  sleeps :: "int list"
  calls :: nat
  loading :: "bool list"

definition addToast :: "toast_text \<Rightarrow> toast_type \<Rightarrow> world \<Rightarrow> world" where
  "addToast m t w = w\<lparr>toasts := toasts w @ [(m, t)]\<rparr>"

definition setGlobalLoading :: "bool \<Rightarrow> world \<Rightarrow> world" where
  "setGlobalLoading b w = w\<lparr>loading := loading w @ [b]\<rparr>"

text \<open>\<open>await new Promise(resolve => setTimeout(resolve, currentDelay))\<close>\<close>

definition sleep :: "int \<Rightarrow> world \<Rightarrow> world" where
  "sleep d w = w\<lparr>sleeps := sleeps w @ [d], nextTimerId := Suc (nextTimerId w)\<rparr>"

definition clearTimeout :: "nat \<Rightarrow> world \<Rightarrow> world" where
  "clearTimeout tid w = w\<lparr>pendingTimers := filter (\<lambda>t. fst t \<noteq> tid) (pendingTimers w)\<rparr>"

section \<open>Quota cooldown: \<open>setGeminiQuotaExhaustedCooldown\<close>\<close>

definition GEMINI_QUOTA_COOLDOWN_MS :: int where
  "GEMINI_QUOTA_COOLDOWN_MS = 15 * 60 * 1000"

text \<open>
  Lines 301-326. \<open>featureName\<close> is optional in the source; the call sites pass their
  (never empty) feature description. The timer started at line 319 gets the identifier
  \<open>nextTimerId\<close> and is stored in \<open>quotaCooldownTimeoutId\<close>.
\<close>

definition setGeminiQuotaExhaustedCooldown :: "feature option \<Rightarrow> world \<Rightarrow> world" where
  "setGeminiQuotaExhaustedCooldown featureName w =
     (if \<not> isCurrentlyGeminiQuotaExhausted w then
        (let cooldownMinutes = GEMINI_QUOTA_COOLDOWN_MS div 60000;
             w1 = w\<lparr>isCurrentlyGeminiQuotaExhausted := True\<rparr>;
             w2 = addToast (QuotaCooldownStarted featureName cooldownMinutes) Error w1;
             w3 = (case quotaCooldownTimeoutId w2 of
                     None \<Rightarrow> w2
                   | Some tid \<Rightarrow> if tid \<noteq> 0 then clearTimeout tid w2 else w2)
         in w3\<lparr>pendingTimers :=
                  pendingTimers w3 @ [(nextTimerId w3, GEMINI_QUOTA_COOLDOWN_MS, featureName)],
                quotaCooldownTimeoutId := Some (nextTimerId w3),
                nextTimerId := Suc (nextTimerId w3)\<rparr>)
      else w)"

text \<open>
  The callback of lines 319-324, run when the pending timer \<open>tid\<close> fires; a timer that
  is not pending (never set, or cleared) does not fire.
\<close>

definition cooldown_timer_fires :: "nat \<Rightarrow> world \<Rightarrow> world" where
  "cooldown_timer_fires tid w =
     (case find (\<lambda>t. fst t = tid) (pendingTimers w) of
        None \<Rightarrow> w
      | Some t \<Rightarrow>
          addToast (QuotaCooldownFinished (snd (snd t))) Info
            (w\<lparr>pendingTimers := filter (\<lambda>t. fst t \<noteq> tid) (pendingTimers w),
               isCurrentlyGeminiQuotaExhausted := False,
               quotaCooldownTimeoutId := None\<rparr>))"

text \<open>
  The two events that touch the cooldown variables, and a run of them. The state at
  module load is \<open>initial_world\<close>.
\<close>

datatype cooldown_event = Activate "feature option" | TimerFires nat

fun cooldown_step :: "cooldown_event \<Rightarrow> world \<Rightarrow> world" where
  "cooldown_step (Activate f) w = setGeminiQuotaExhaustedCooldown f w"
| "cooldown_step (TimerFires tid) w = cooldown_timer_fires tid w"

fun run_events :: "cooldown_event list \<Rightarrow> world \<Rightarrow> world" where
  "run_events [] w = w"
| "run_events (e # es) w = run_events es (cooldown_step e w)"

definition initial_world :: "bool \<Rightarrow> world" where
  "initial_world key =
     \<lparr> ai = key, isCurrentlyGeminiQuotaExhausted = False, quotaCooldownTimeoutId = None,
       pendingTimers = [], nextTimerId = 1, toasts = [], sleeps = [], calls = 0,
       loading = [] \<rparr>"

text \<open>
  The cooldown is active exactly while one deactivation timer is pending, and that timer
  is the one \<open>quotaCooldownTimeoutId\<close> names.
\<close>

definition cooldown_consistent :: "world \<Rightarrow> bool" where
  "cooldown_consistent w =
     (if isCurrentlyGeminiQuotaExhausted w
      then (case pendingTimers w of
              [t] \<Rightarrow> quotaCooldownTimeoutId w = Some (fst t) \<and> fst t \<noteq> 0
                       \<and> fst (snd t) = GEMINI_QUOTA_COOLDOWN_MS \<and> fst t < nextTimerId w
            | _ \<Rightarrow> False)
      else pendingTimers w = [] \<and> quotaCooldownTimeoutId w = None \<and> 0 < nextTimerId w)"

section \<open>Decoding the provider's text (lines 405-412)\<close>

text \<open>
  The white space of \<open>trim\<close> and of \<open>\s\<close> in the regular expression, as UTF-8 bytes:
  tab, line feed, vertical tab, form feed, carriage return, space, U+00A0, U+1680,
  U+2000 to U+200A, U+2028, U+2029, U+202F, U+205F, U+3000 and U+FEFF.
\<close>

definition white_space :: "string list" where
  "white_space =
    [[CHR 0x09], [CHR 0x0A], [CHR 0x0B], [CHR 0x0C], [CHR 0x0D], [CHR 0x20],
     [CHR 0xC2, CHR 0xA0], [CHR 0xE1, CHR 0x9A, CHR 0x80], [CHR 0xE2, CHR 0x80, CHR 0x80],
     [CHR 0xE2, CHR 0x80, CHR 0x81], [CHR 0xE2, CHR 0x80, CHR 0x82],
     [CHR 0xE2, CHR 0x80, CHR 0x83], [CHR 0xE2, CHR 0x80, CHR 0x84],
     [CHR 0xE2, CHR 0x80, CHR 0x85], [CHR 0xE2, CHR 0x80, CHR 0x86],
     [CHR 0xE2, CHR 0x80, CHR 0x87], [CHR 0xE2, CHR 0x80, CHR 0x88],
     [CHR 0xE2, CHR 0x80, CHR 0x89], [CHR 0xE2, CHR 0x80, CHR 0x8A],
     [CHR 0xE2, CHR 0x80, CHR 0xA8], [CHR 0xE2, CHR 0x80, CHR 0xA9],
     [CHR 0xE2, CHR 0x80, CHR 0xAF], [CHR 0xE2, CHR 0x81, CHR 0x9F],
     [CHR 0xE3, CHR 0x80, CHR 0x80], [CHR 0xEF, CHR 0xBB, CHR 0xBF]]"

text \<open>The string without its longest prefix made of the given byte sequences.\<close>

function strip_start :: "string list \<Rightarrow> string \<Rightarrow> string" where
  "strip_start ps s =
     (if s = [] then s
      else case find (\<lambda>p. p \<noteq> [] \<and> take (length p) s = p) ps of
             None \<Rightarrow> s
           | Some p \<Rightarrow> strip_start ps (drop (length p) s))"
  by pat_completeness auto
termination
  by (relation "measure (\<lambda>(ps, s). length s)") (auto simp: find_Some_iff)

definition trim_start :: "string \<Rightarrow> string" where
  "trim_start s = strip_start white_space s"

definition trim_end :: "string \<Rightarrow> string" where
  "trim_end s = rev (strip_start (map rev white_space) (rev s))"

definition trim :: "string \<Rightarrow> string" where
  "trim s = trim_end (trim_start s)"

text \<open>The word characters of \<open>\w\<close>: ASCII letters, digits and the underscore.\<close>

definition is_word_char :: "char \<Rightarrow> bool" where
  "is_word_char c =
     (let n = (of_char c :: nat)
      in (48 \<le> n \<and> n \<le> 57) \<or> (65 \<le> n \<and> n \<le> 90) \<or> (97 \<le> n \<and> n \<le> 122) \<or> n = 95)"

definition fence :: string where
  "fence = replicate 3 (char_of (96 :: nat))"

text \<open>
  The second group of \<open>fenceRegex\<close>, when the expression matches: the string opens and
  closes with three backquotes that do not overlap; the greedy \<open>(\w*)?\<close> and \<open>\s*\<close> take
  the word characters and then the white space after the opening fence, and the lazy
  \<open>(.*?)\<close> takes the rest up to the white space before the closing fence.
\<close>

definition fence_match :: "string \<Rightarrow> string option" where
  "fence_match s =
     (if 6 \<le> length s \<and> take 3 s = fence \<and> drop (length s - 3) s = fence
      then Some (trim_end (trim_start (dropWhile is_word_char
                   (take (length s - 6) (drop 3 s)))))
      else None)"

text \<open>\<open>jsonStr\<close> as handed to \<open>JSON.parse\<close>; \<open>response.text\<close> may be undefined.\<close>

definition response_json :: "string option \<Rightarrow> string" where
  "response_json text_opt =
     (let jsonStr = (case text_opt of None \<Rightarrow> [] | Some t \<Rightarrow> trim t)
      in case fence_match jsonStr of
           None \<Rightarrow> jsonStr
         | Some body \<Rightarrow> if body \<noteq> [] then trim body else jsonStr)"

text \<open>
  One provider call: the promise resolves with a response, of which the code reads
  \<open>text\<close>, or rejects with an error value.
\<close>

datatype gen_outcome = Resolved "string option" | Rejected jsval

text \<open>
  The exception of reading a property of \<open>null\<close> (the decoded text \<open>null\<close>): a
  \<open>TypeError\<close>, an object with a string \<open>message\<close>. The wording is the engine's.
\<close>

definition null_read_error :: jsval where
  "null_read_error = JObj [(''message'', JStr ''Cannot read properties of null'')]"

text \<open>
  The part of the \<open>try\<close> block that can throw: the awaited call, \<open>JSON.parse\<close> and the
  first field read. \<open>Inl\<close> is the exception the \<open>catch\<close> receives, \<open>Inr\<close> the decoded
  data. \<open>JSON_parse\<close> is the platform's parser: \<open>Inl\<close> its \<open>SyntaxError\<close>.
\<close>

definition decode_attempt :: "(string \<Rightarrow> jsval + jsval) \<Rightarrow> gen_outcome \<Rightarrow> jsval + jsval" where
  "decode_attempt JSON_parse out =
     (case out of
        Rejected error \<Rightarrow> Inl error
      | Resolved text_opt \<Rightarrow>
          (case JSON_parse (response_json text_opt) of
             Inl error \<Rightarrow> Inl error
           | Inr data \<Rightarrow>
               if data = JNull \<or> data = JUndefined then Inl null_read_error else Inr data))"

text \<open>Line 414: an essential field is missing, null, empty, zero or false.\<close>

definition fields_missing :: "jsval \<Rightarrow> bool" where
  "fields_missing data =
     (\<not> truthy (getProp data ''partOfSpeech'') \<or> \<not> truthy (getProp data ''meaning'')
        \<or> \<not> truthy (getProp data ''exampleSentence''))"

section \<open>The retry loop of \<open>generateWordDetailsWithGemini\<close>\<close>

text \<open>How one pass through the loop body ends.\<close>

datatype 'a control = Continue | Return 'a

text \<open>
  The \<open>catch\<close> block, lines 428-455, shared in shape by both call sites; the result
  \<open>None\<close> is \<open>null\<close>.
\<close>

definition on_error ::
  "feature \<Rightarrow> int \<Rightarrow> int \<Rightarrow> int \<Rightarrow> jsval \<Rightarrow> world \<Rightarrow> 'a option control \<times> int \<times> world" where
  "on_error featureDescription retries i currentDelay error w =
     (let p = parseGeminiError error in
      if isQuotaExhaustedError p
      then (Return None, currentDelay,
            setGeminiQuotaExhaustedCooldown (Some featureDescription) w)
      else if i < retries
      then (Continue, currentDelay * 2,
            sleep currentDelay
              (addToast (if isRateLimitErrorForRetry p
                         then RateLimitRetrying featureDescription currentDelay
                         else ErrorRetrying featureDescription currentDelay (displayErrorMsg p))
                 Warning w))
      else (Return None, currentDelay,
            addToast (if isRateLimitErrorForRetry p
                      then RateLimitFinal featureDescription
                      else ErrorFinal featureDescription (displayErrorMsg p))
              Error w))"

text \<open>
  The loop body, lines 394-455, at index \<open>i\<close>. The provider is a script: its answer to
  the \<open>n\<close>-th call made so far. The result is how the body ends, the new
  \<open>currentDelay\<close> and the new state. The state \<open>w\<close> is the shared state that the code
  after the awaited call finds: calls running at the same time (a batch starts several)
  may have changed the cooldown variables before.
\<close>

definition word_attempt ::
  "(string \<Rightarrow> jsval + jsval) \<Rightarrow> (nat \<Rightarrow> gen_outcome) \<Rightarrow> string \<Rightarrow> int \<Rightarrow> int \<Rightarrow> int \<Rightarrow> world
     \<Rightarrow> jsval option control \<times> int \<times> world" where
  "word_attempt JSON_parse provider term retries i currentDelay w =
     (let w1 = w\<lparr>calls := Suc (calls w)\<rparr> in
      case decode_attempt JSON_parse (provider (calls w)) of
        Inr data \<Rightarrow>
          if fields_missing data then
            (if i < retries
             then (Continue, currentDelay * 2,
                   sleep currentDelay
                     (addToast (FieldsMissingRetrying (WordInfoLookup term) (i + 1) (retries + 1))
                        Warning w1))
             else (Return (Some (JObj [(''term'', JStr term)])), currentDelay,
                   addToast (FieldsMissingAllFailed (WordInfoLookup term)) Error w1))
          else (Return (Some data), currentDelay, w1)
      | Inl error \<Rightarrow> on_error (WordInfoLookup term) retries i currentDelay error w1)"

text \<open>
  The \<open>for\<close> loop of line 393 from index \<open>i\<close>. \<open>Some r\<close>: a \<open>return r\<close> inside the
  loop; \<open>None\<close>: the loop ran out.
\<close>

function word_loop ::
  "(string \<Rightarrow> jsval + jsval) \<Rightarrow> (nat \<Rightarrow> gen_outcome) \<Rightarrow> string \<Rightarrow> int \<Rightarrow> int \<Rightarrow> int \<Rightarrow> world
     \<Rightarrow> jsval option option \<times> world" where
  "word_loop JSON_parse provider term retries i currentDelay w =
     (if i \<le> retries then
        (case word_attempt JSON_parse provider term retries i currentDelay w of
           (Return r, d, w') \<Rightarrow> (Some r, w')
         | (Continue, d, w') \<Rightarrow> word_loop JSON_parse provider term retries (i + 1) d w')
      else (None, w))"
  by pat_completeness auto
termination
  by (relation "measure (\<lambda>(P, prov, term, retries, i, d, w). nat (retries + 1 - i))") auto

text \<open>Lines 365-463; the \<open>finally\<close> block runs on every way out of the loop.\<close>

definition generateWordDetailsWithGemini ::
  "(string \<Rightarrow> jsval + jsval) \<Rightarrow> (nat \<Rightarrow> gen_outcome) \<Rightarrow> string \<Rightarrow> int \<Rightarrow> int \<Rightarrow> world
     \<Rightarrow> jsval option \<times> world" where
  "generateWordDetailsWithGemini JSON_parse provider term retries initialDelay w =
     (if \<not> ai w then (None, addToast ApiKeyRequired Warning w)
      else if isCurrentlyGeminiQuotaExhausted w
      then (None, addToast (SkippedForQuota (WordInfoLookup term)) Warning w)
      else
        (case word_loop JSON_parse provider term retries 0 initialDelay (setGlobalLoading True w) of
           (Some r, w') \<Rightarrow> (r, setGlobalLoading False w')
         | (None, w') \<Rightarrow>
             (None, addToast (UnexpectedFlow (WordInfoLookup term)) Error
                      (setGlobalLoading False w'))))"

section \<open>The retry loop of \<open>generateImageForWordWithGemini\<close>\<close>

text \<open>
  The response of \<open>generateImages\<close>, as far as line 689 reads it: an optional list of
  generated images, each with an optional \<open>image\<close> that has optional \<open>imageBytes\<close>.
\<close>

record image_data =
  imageBytes :: "string option"

record generated_image =
  image :: "image_data option"

datatype image_outcome = ImageResolved "generated_image list option" | ImageRejected jsval

text \<open>The test of line 689; \<open>Some\<close> the bytes it then returns.\<close>

definition first_image_bytes :: "generated_image list option \<Rightarrow> string option" where
  "first_image_bytes generatedImages =
     (case generatedImages of
        None \<Rightarrow> None
      | Some [] \<Rightarrow> None
      | Some (g # gs) \<Rightarrow>
          (case image g of
             None \<Rightarrow> None
           | Some im \<Rightarrow>
               (case imageBytes im of
                  None \<Rightarrow> None
                | Some bytes \<Rightarrow> if bytes \<noteq> [] then Some bytes else None)))"

text \<open>The loop body, lines 681-731.\<close>

definition image_attempt ::
  "(nat \<Rightarrow> image_outcome) \<Rightarrow> string \<Rightarrow> int \<Rightarrow> int \<Rightarrow> int \<Rightarrow> world
     \<Rightarrow> string option control \<times> int \<times> world" where
  "image_attempt provider wordTerm retries i currentDelay w =
     (let w1 = w\<lparr>calls := Suc (calls w)\<rparr> in
      case provider (calls w) of
        ImageResolved generatedImages \<Rightarrow>
          (case first_image_bytes generatedImages of
             Some bytes \<Rightarrow>
               (Return (Some bytes), currentDelay,
                addToast (ImageCompleted (WordImageGeneration wordTerm)) Success w1)
           | None \<Rightarrow>
               if i < retries
               then (Continue, currentDelay * 2,
                     sleep currentDelay (addToast (ImageMissingRetrying wordTerm) Warning w1))
               else (Return None, currentDelay,
                     addToast (ImageMissingAllFailed wordTerm) Error w1))
      | ImageRejected error \<Rightarrow>
          on_error (WordImageGeneration wordTerm) retries i currentDelay error w1)"

function image_loop ::
  "(nat \<Rightarrow> image_outcome) \<Rightarrow> string \<Rightarrow> int \<Rightarrow> int \<Rightarrow> int \<Rightarrow> world
     \<Rightarrow> string option option \<times> world" where
  "image_loop provider wordTerm retries i currentDelay w =
     (if i \<le> retries then
        (case image_attempt provider wordTerm retries i currentDelay w of
           (Return r, d, w') \<Rightarrow> (Some r, w')
         | (Continue, d, w') \<Rightarrow> image_loop provider wordTerm retries (i + 1) d w')
      else (None, w))"
  by pat_completeness auto
termination
  by (relation "measure (\<lambda>(prov, term, retries, i, d, w). nat (retries + 1 - i))") auto

text \<open>Lines 664-739.\<close>

definition generateImageForWordWithGemini ::
  "(nat \<Rightarrow> image_outcome) \<Rightarrow> string \<Rightarrow> int \<Rightarrow> int \<Rightarrow> world \<Rightarrow> string option \<times> world" where
  "generateImageForWordWithGemini provider wordTerm retries initialDelay w =
     (if \<not> ai w then (None, addToast ImageApiKeyRequired Warning w)
      else if isCurrentlyGeminiQuotaExhausted w
      then (None, addToast (SkippedForQuota (WordImageGeneration wordTerm)) Warning w)
      else
        (case image_loop provider wordTerm retries 0 initialDelay (setGlobalLoading True w) of
           (Some r, w') \<Rightarrow> (r, setGlobalLoading False w')
         | (None, w') \<Rightarrow>
             (None, addToast (UnexpectedFlow (WordImageGeneration wordTerm)) Error
                      (setGlobalLoading False w'))))"

section \<open>The tutor chat: \<open>handleSendMessage\<close>\<close>

datatype role = User | Model

record chat_message =
  role :: role
  msg_text :: string

text \<open>
  The state of \<open>TutorChatScreen\<close>: whether \<open>chat\<close> is non-null, the transcript, the
  input box, the loading flag, and the error messages and loading flags handed to the
  callbacks of the surrounding application. \<open>transcripts\<close> lists every value that a
  \<open>setMessages\<close> call gave the transcript, in order.
\<close>

record tutor_chat =
  chat :: bool
  messages :: "chat_message list"
  transcripts :: "chat_message list list"
  userInput :: string
  isLoading :: bool
  chat_errors :: "string list"
  chat_loading :: "bool list"

text \<open>\<open>setMessages(prev => f(prev))\<close>\<close>

definition setMessages :: "(chat_message list \<Rightarrow> chat_message list) \<Rightarrow> tutor_chat \<Rightarrow> tutor_chat" where
  "setMessages f s =
     s\<lparr>messages := f (messages s), transcripts := transcripts s @ [f (messages s)]\<rparr>"

text \<open>
  One \<open>sendMessageStream\<close>: the awaited call rejects, or it gives a stream that yields
  chunks (\<open>chunk.text\<close> may be undefined) and then ends or throws.
\<close>

datatype stream_outcome =
    SendRejected jsval
  | Streamed "string option list" "jsval option"

text \<open>
  Lines 2981-2988: each chunk replaces the last entry by the text so far. On an empty
  array the assignment at index -1 adds no element.
\<close>

fun consume_chunks :: "string option list \<Rightarrow> string \<Rightarrow> tutor_chat \<Rightarrow> tutor_chat" where
  "consume_chunks [] accumulatedText s = s"
| "consume_chunks (c # cs) accumulatedText s =
     (let acc = accumulatedText @ (case c of None \<Rightarrow> ''undefined'' | Some t \<Rightarrow> t)
      in consume_chunks cs acc
           (setMessages
              (\<lambda>prev. if prev = [] then prev
                       else prev[length prev - 1 := \<lparr>role = Model, msg_text = acc\<rparr>])
              s))"

text \<open>The \<open>catch\<close> block, lines 2989-2993; \<open>slice(0, -1)\<close> is \<open>butlast\<close>.\<close>

definition chat_failed :: "jsval \<Rightarrow> tutor_chat \<Rightarrow> tutor_chat" where
  "chat_failed error s =
     setMessages butlast
       (s\<lparr>chat_errors := chat_errors s @ [displayErrorMsg (parseGeminiError error)]\<rparr>)"

text \<open>Lines 2966-2998.\<close>

definition handleSendMessage :: "stream_outcome \<Rightarrow> tutor_chat \<Rightarrow> tutor_chat" where
  "handleSendMessage outcome s =
     (let trimmedInput = trim (userInput s) in
      if trimmedInput = [] \<or> isLoading s \<or> \<not> chat s then s
      else
        (let s0 = setMessages (\<lambda>prev. prev @ [\<lparr>role = User, msg_text = trimmedInput\<rparr>])
                    (s\<lparr>userInput := []\<rparr>);
             s1 = s0\<lparr>isLoading := True, chat_loading := chat_loading s0 @ [True]\<rparr>;
             s2 = (case outcome of
                     SendRejected error \<Rightarrow> chat_failed error s1
                   | Streamed chunks thrown \<Rightarrow>
                       (let s' = consume_chunks chunks []
                                   (setMessages
                                      (\<lambda>prev. prev @ [\<lparr>role = Model, msg_text = ''...''\<rparr>]) s1)
                        in case thrown of None \<Rightarrow> s' | Some error \<Rightarrow> chat_failed error s'))
         in s2\<lparr>isLoading := False, chat_loading := chat_loading s2 @ [False]\<rparr>))"

text \<open>The texts that the chunks of a stream accumulate to, one per chunk.\<close>

fun accumulated :: "string option list \<Rightarrow> string \<Rightarrow> string list" where
  "accumulated [] acc = []"
| "accumulated (c # cs) acc =
     (acc @ (case c of None \<Rightarrow> ''undefined'' | Some t \<Rightarrow> t))
       # accumulated cs (acc @ (case c of None \<Rightarrow> ''undefined'' | Some t \<Rightarrow> t))"

text \<open>
  An outcome after which the loop body goes on to the next attempt while attempts
  remain: an exception that is not classified as quota exhaustion, or decoded data with
  an essential field missing.
\<close>

definition retryable :: "(string \<Rightarrow> jsval + jsval) \<Rightarrow> gen_outcome \<Rightarrow> bool" where
  "retryable JSON_parse out =
     (case decode_attempt JSON_parse out of
        Inl error \<Rightarrow> \<not> isQuotaExhaustedError (parseGeminiError error)
      | Inr data \<Rightarrow> fields_missing data)"

section \<open>Example inputs\<close>

text \<open>Provider errors with a quota message and the status code 0, or NaN.\<close>

definition zero_code_quota_error :: jsval where
  "zero_code_quota_error =
     JObj [(''error'', JObj [(''message'', JStr ''Quota exceeded''), (''code'', JNum (Integer 0))])]"

text \<open>A provider error 429 tagged \<open>RESOURCE_EXHAUSTED\<close> whose message has no "quota".\<close>

definition tagged_429_error :: jsval where
  "tagged_429_error =
     JObj [(''error'', JObj [(''message'', JStr ''Too many requests''), (''code'', JNum (Integer 429)),
                             (''status'', JStr ''RESOURCE_EXHAUSTED'')])]"

text \<open>A general error object with status 429, and one with a quota message only.\<close>

definition nan_code_quota_error :: jsval where
  "nan_code_quota_error =
     JObj [(''error'', JObj [(''message'', JStr ''Quota exceeded''), (''code'', JNum NaN)])]"

definition plain_429_error :: jsval where
  "plain_429_error = JObj [(''message'', JStr ''Too Many Requests''), (''status'', JNum (Integer 429))]"

definition quota_message_error :: jsval where
  "quota_message_error = JObj [(''message'', JStr ''Quota exceeded for this model'')]"

text \<open>The chat screen with a greeting in the transcript and a question typed in.\<close>

definition typing_chat :: tutor_chat where
  "typing_chat =
     \<lparr> chat = True, messages = [\<lparr>role = Model, msg_text = ''Hello''\<rparr>],
       transcripts = [], userInput = '' What is a noun? '', isLoading = False,
       chat_errors = [], chat_loading = [] \<rparr>"

text \<open>
  Provider replies and a stand-in for \<open>JSON.parse\<close> that agrees with it on the texts
  used below: a complete word record (also wrapped in a fenced block), a record without
  an example sentence, the text \<open>null\<close>, and text that is not JSON.
\<close>

definition dquote :: string where
  "dquote = [char_of (34 :: nat)]"

definition json_member :: "string \<Rightarrow> string \<Rightarrow> string" where
  "json_member k v = dquote @ k @ dquote @ '':'' @ dquote @ v @ dquote"

definition complete_word_text :: string where
  "complete_word_text =
     ''{'' @ json_member ''partOfSpeech'' ''noun'' @ '','' @ json_member ''meaning'' ''goyangi''
       @ '','' @ json_member ''exampleSentence'' ''The cat sleeps.'' @ ''}''"

definition complete_word :: jsval where
  "complete_word =
     JObj [(''partOfSpeech'', JStr ''noun''), (''meaning'', JStr ''goyangi''),
           (''exampleSentence'', JStr ''The cat sleeps.'')]"

definition fenced_reply :: string where
  "fenced_reply = fence @ ''json'' @ [char_of (10 :: nat)] @ complete_word_text
                    @ [char_of (10 :: nat)] @ fence @ '' ''"

definition partial_word_text :: string where
  "partial_word_text =
     ''{'' @ json_member ''partOfSpeech'' ''noun'' @ '','' @ json_member ''meaning'' ''goyangi''
       @ ''}''"

definition partial_word :: jsval where
  "partial_word = JObj [(''partOfSpeech'', JStr ''noun''), (''meaning'', JStr ''goyangi'')]"

definition syntax_error :: jsval where
  "syntax_error = JObj [(''message'', JStr ''Unexpected token o in JSON at position 1'')]"

definition example_JSON_parse :: "string \<Rightarrow> jsval + jsval" where
  "example_JSON_parse s =
     (if s = complete_word_text then Inr complete_word
      else if s = partial_word_text then Inr partial_word
      else if s = ''null'' then Inr JNull
      else Inl syntax_error)"

definition network_error :: jsval where
  "network_error = JObj [(''message'', JStr ''Failed to fetch'')]"

definition fails_twice_then_succeeds :: "nat \<Rightarrow> gen_outcome" where
  "fails_twice_then_succeeds n = (if n < 2 then Rejected network_error else Resolved (Some fenced_reply))"

definition always_quota :: "nat \<Rightarrow> gen_outcome" where
  "always_quota n = Rejected tagged_429_error"

definition always_partial :: "nat \<Rightarrow> gen_outcome" where
  "always_partial n = Resolved (Some partial_word_text)"

definition always_null :: "nat \<Rightarrow> gen_outcome" where
  "always_null n = Resolved (Some ''null'')"

definition always_malformed :: "nat \<Rightarrow> gen_outcome" where
  "always_malformed n = Resolved (Some ''not json'')"

definition image_ready :: "nat \<Rightarrow> image_outcome" where
  "image_ready n = ImageResolved (Some [\<lparr>image = Some \<lparr>imageBytes = Some ''/9j/4AAQSkZJRg==''\<rparr>\<rparr>])"

section \<open>Properties of the error classification\<close>

text \<open>
  C1, as amended. \<open>parseGeminiError\<close> reports quota exhaustion exactly when the status
  code is 429 and the lower-cased message contains "quota", or the provider status tag
  is \<open>RESOURCE_EXHAUSTED\<close>, or the status code is absent, zero or NaN and the
  lower-cased message contains "quota" and one of "exceeded" and "exhausted". The source
  tests \<open>!statusCode\<close>, which holds of \<open>undefined\<close> and of the falsy numbers 0 and NaN.
\<close>

theorem parseGeminiError_quota_iff:
  "isQuotaExhaustedError (parseGeminiError e) \<longleftrightarrow>
     (statusCode (parseGeminiError e) = Some (Integer 429)
        \<and> str_includes (detailedErrorMessage (parseGeminiError e)) ''quota'')
     \<or> geminiErrorStatus (parseGeminiError e) = Some ''RESOURCE_EXHAUSTED''
     \<or> ((statusCode (parseGeminiError e) = None
           \<or> statusCode (parseGeminiError e) = Some (Integer 0)
           \<or> statusCode (parseGeminiError e) = Some NaN)
          \<and> str_includes (detailedErrorMessage (parseGeminiError e)) ''quota''
          \<and> (str_includes (detailedErrorMessage (parseGeminiError e)) ''exceeded''
               \<or> str_includes (detailedErrorMessage (parseGeminiError e)) ''exhausted''))"
  by (auto simp: parseGeminiError_def quota_rule_def not_statusCode_def
           split: prod.splits option.splits)

theorem parseGeminiError_quota_iff_witness:
  "isQuotaExhaustedError (parseGeminiError nan_code_quota_error)
     \<and> statusCode (parseGeminiError nan_code_quota_error) = Some NaN
     \<and> geminiErrorStatus (parseGeminiError nan_code_quota_error) = None"
  using parseGeminiError_quota_iff [of nan_code_quota_error]
  by code_simp

text \<open>
  C1 as stated fails: a provider error with code 0 and message "Quota exceeded" is
  classified as quota exhaustion, although its status code is present and not 429 and
  it has no status tag.
\<close>

theorem parseGeminiError_quota_zero_code_counterexample:
  "isQuotaExhaustedError (parseGeminiError zero_code_quota_error)
     \<and> \<not> ((statusCode (parseGeminiError zero_code_quota_error) = Some (Integer 429)
              \<and> str_includes (detailedErrorMessage (parseGeminiError zero_code_quota_error)) ''quota'')
          \<or> geminiErrorStatus (parseGeminiError zero_code_quota_error) = Some ''RESOURCE_EXHAUSTED''
          \<or> (statusCode (parseGeminiError zero_code_quota_error) = None
               \<and> str_includes (detailedErrorMessage (parseGeminiError zero_code_quota_error)) ''quota''
               \<and> (str_includes (detailedErrorMessage (parseGeminiError zero_code_quota_error)) ''exceeded''
                    \<or> str_includes (detailedErrorMessage (parseGeminiError zero_code_quota_error)) ''exhausted'')))"
  by code_simp

text \<open>
  C2, as amended. An error with status code 429 whose lower-cased message does not
  contain "quota" and whose provider status tag is not \<open>RESOURCE_EXHAUSTED\<close> is a
  retryable rate limit and not quota exhaustion.
\<close>

theorem parseGeminiError_rate_limit:
  "statusCode (parseGeminiError e) = Some (Integer 429) \<Longrightarrow>
   \<not> str_includes (detailedErrorMessage (parseGeminiError e)) ''quota'' \<Longrightarrow>
   geminiErrorStatus (parseGeminiError e) \<noteq> Some ''RESOURCE_EXHAUSTED'' \<Longrightarrow>
   isRateLimitErrorForRetry (parseGeminiError e) \<and> \<not> isQuotaExhaustedError (parseGeminiError e)"
  by (auto simp: parseGeminiError_def quota_rule_def not_statusCode_def
           split: prod.splits option.splits)

theorem parseGeminiError_rate_limit_witness:
  "statusCode (parseGeminiError plain_429_error) = Some (Integer 429)
     \<and> \<not> str_includes (detailedErrorMessage (parseGeminiError plain_429_error)) ''quota''
     \<and> geminiErrorStatus (parseGeminiError plain_429_error) \<noteq> Some ''RESOURCE_EXHAUSTED''
     \<and> isRateLimitErrorForRetry (parseGeminiError plain_429_error)
     \<and> \<not> isQuotaExhaustedError (parseGeminiError plain_429_error)"
proof -
  have h1: "statusCode (parseGeminiError plain_429_error) = Some (Integer 429)"
    by code_simp
  have h2: "\<not> str_includes (detailedErrorMessage (parseGeminiError plain_429_error)) ''quota''"
    by code_simp
  have h3: "geminiErrorStatus (parseGeminiError plain_429_error) \<noteq> Some ''RESOURCE_EXHAUSTED''"
    by code_simp
  show ?thesis
    using h1 h2 h3 parseGeminiError_rate_limit [OF h1 h2 h3] by simp
qed

text \<open>
  C2 as stated fails: with status code 429 and no "quota" in the message, the tag
  \<open>RESOURCE_EXHAUSTED\<close> alone makes the error quota exhaustion, not a rate limit.
\<close>

theorem parseGeminiError_tagged_429_counterexample:
  "statusCode (parseGeminiError tagged_429_error) = Some (Integer 429)
     \<and> \<not> str_includes (detailedErrorMessage (parseGeminiError tagged_429_error)) ''quota''
     \<and> \<not> isRateLimitErrorForRetry (parseGeminiError tagged_429_error)
     \<and> isQuotaExhaustedError (parseGeminiError tagged_429_error)"
  by code_simp

section \<open>Properties of the quota cooldown\<close>

lemma activate_when_active:
  "isCurrentlyGeminiQuotaExhausted w \<Longrightarrow> setGeminiQuotaExhaustedCooldown f w = w"
  by (simp add: setGeminiQuotaExhaustedCooldown_def)

lemma activate_sets_flag:
  "isCurrentlyGeminiQuotaExhausted (setGeminiQuotaExhaustedCooldown f w)"
  by (simp add: setGeminiQuotaExhaustedCooldown_def Let_def addToast_def clearTimeout_def
           split: option.splits)

lemma activate_twice:
  "setGeminiQuotaExhaustedCooldown g (setGeminiQuotaExhaustedCooldown f w)
     = setGeminiQuotaExhaustedCooldown f w"
  by (rule activate_when_active) (rule activate_sets_flag)

lemma activate_when_inactive:
  "\<not> isCurrentlyGeminiQuotaExhausted w \<Longrightarrow> cooldown_consistent w \<Longrightarrow>
     pendingTimers (setGeminiQuotaExhaustedCooldown f w)
       = [(nextTimerId w, GEMINI_QUOTA_COOLDOWN_MS, f)]
     \<and> toasts (setGeminiQuotaExhaustedCooldown f w)
         = toasts w @ [(QuotaCooldownStarted f 15, Error)]
     \<and> quotaCooldownTimeoutId (setGeminiQuotaExhaustedCooldown f w) = Some (nextTimerId w)
     \<and> nextTimerId (setGeminiQuotaExhaustedCooldown f w) = Suc (nextTimerId w)"
  by (simp add: setGeminiQuotaExhaustedCooldown_def cooldown_consistent_def Let_def
        addToast_def GEMINI_QUOTA_COOLDOWN_MS_def)

lemma consistent_activate:
  "cooldown_consistent w \<Longrightarrow> cooldown_consistent (setGeminiQuotaExhaustedCooldown f w)"
proof (cases "isCurrentlyGeminiQuotaExhausted w")
  case True
  assume "cooldown_consistent w"
  with True show ?thesis by (simp add: activate_when_active)
next
  case False
  assume c: "cooldown_consistent w"
  from False c have "0 < nextTimerId w" by (simp add: cooldown_consistent_def)
  with activate_when_inactive [OF False c, of f] activate_sets_flag [of f w]
  show ?thesis by (simp add: cooldown_consistent_def)
qed

lemma consistent_fires:
  "cooldown_consistent w \<Longrightarrow> cooldown_consistent (cooldown_timer_fires tid w)"
  by (auto simp: cooldown_consistent_def cooldown_timer_fires_def addToast_def
           split: if_splits list.splits option.splits)

lemma fires_never_activates:
  "\<not> isCurrentlyGeminiQuotaExhausted w \<Longrightarrow>
     \<not> isCurrentlyGeminiQuotaExhausted (cooldown_timer_fires tid w)"
  by (simp add: cooldown_timer_fires_def addToast_def split: option.splits)

lemma consistent_run:
  "cooldown_consistent w \<Longrightarrow> cooldown_consistent (run_events evs w)"
proof (induction evs arbitrary: w)
  case Nil
  then show ?case by simp
next
  case (Cons e evs)
  have "cooldown_consistent (cooldown_step e w)"
    using Cons.prems by (cases e) (simp_all add: consistent_activate consistent_fires)
  then show ?case using Cons.IH by simp
qed

lemma initial_world_consistent: "cooldown_consistent (initial_world key)"
  by (simp add: cooldown_consistent_def initial_world_def)

text \<open>
  C3. In a state where the cooldown variables are consistent (as at module load and
  after any run of activations and timer expiries), a second activation changes nothing:
  called while active, \<open>setGeminiQuotaExhaustedCooldown\<close> returns the state as it is;
  two activations in a row from the inactive state leave exactly one pending
  deactivation timer and add exactly one "cooldown started" notification. Activation
  leaves the flag set, only the expiry of the timer named by \<open>quotaCooldownTimeoutId\<close>
  clears it, and consistency is kept by every run of the two events.
\<close>

theorem activation_idempotent:
  "cooldown_consistent w \<Longrightarrow>
     setGeminiQuotaExhaustedCooldown g (setGeminiQuotaExhaustedCooldown f w)
       = setGeminiQuotaExhaustedCooldown f w
     \<and> (if isCurrentlyGeminiQuotaExhausted w
        then setGeminiQuotaExhaustedCooldown f w = w
        else pendingTimers
               (setGeminiQuotaExhaustedCooldown g (setGeminiQuotaExhaustedCooldown f w))
               = [(nextTimerId w, GEMINI_QUOTA_COOLDOWN_MS, f)]
             \<and> toasts
                 (setGeminiQuotaExhaustedCooldown g (setGeminiQuotaExhaustedCooldown f w))
                 = toasts w @ [(QuotaCooldownStarted f 15, Error)])
     \<and> isCurrentlyGeminiQuotaExhausted (setGeminiQuotaExhaustedCooldown f w)
     \<and> (isCurrentlyGeminiQuotaExhausted (cooldown_timer_fires tid w)
          = (isCurrentlyGeminiQuotaExhausted w \<and> quotaCooldownTimeoutId w \<noteq> Some tid))
     \<and> cooldown_consistent (run_events evs w)"
proof -
  assume c: "cooldown_consistent w"
  have fires: "isCurrentlyGeminiQuotaExhausted (cooldown_timer_fires tid w)
          = (isCurrentlyGeminiQuotaExhausted w \<and> quotaCooldownTimeoutId w \<noteq> Some tid)"
    using c by (auto simp: cooldown_consistent_def cooldown_timer_fires_def addToast_def
                     split: if_splits list.splits option.splits)
  show ?thesis
    using c fires activate_when_inactive [of w f]
    by (simp add: activate_twice activate_when_active activate_sets_flag consistent_run)
qed

theorem activation_idempotent_witness:
  "cooldown_consistent (initial_world True)
   \<and> pendingTimers (setGeminiQuotaExhaustedCooldown None
        (setGeminiQuotaExhaustedCooldown (Some (WordInfoLookup ''cat'')) (initial_world True)))
       = [(1, 900000, Some (WordInfoLookup ''cat''))]
   \<and> toasts (setGeminiQuotaExhaustedCooldown None
        (setGeminiQuotaExhaustedCooldown (Some (WordInfoLookup ''cat'')) (initial_world True)))
       = [(QuotaCooldownStarted (Some (WordInfoLookup ''cat'')) 15, Error)]
   \<and> cooldown_consistent
       (run_events [Activate None, Activate None, TimerFires 1, Activate None]
          (initial_world True))"
proof -
  have h: "cooldown_consistent (initial_world True)"
    by (rule initial_world_consistent)
  have i: "\<not> isCurrentlyGeminiQuotaExhausted (initial_world True)"
    "nextTimerId (initial_world True) = 1" "toasts (initial_world True) = []"
    by (simp_all add: initial_world_def)
  show ?thesis
    using h i activation_idempotent [OF h, of None "Some (WordInfoLookup ''cat'')" 1
        "[Activate None, Activate None, TimerFires 1, Activate None]"]
    by (auto simp: GEMINI_QUOTA_COOLDOWN_MS_def)
qed

section \<open>Properties of the tutor chat\<close>

lemma setMessages_fields [simp]:
  "chat (setMessages f s) = chat s" "userInput (setMessages f s) = userInput s"
  "isLoading (setMessages f s) = isLoading s" "chat_errors (setMessages f s) = chat_errors s"
  "chat_loading (setMessages f s) = chat_loading s"
  "messages (setMessages f s) = f (messages s)"
  "transcripts (setMessages f s) = transcripts s @ [f (messages s)]"
  by (simp_all add: setMessages_def)

lemma accumulated_empty [simp]: "accumulated cs acc = [] \<longleftrightarrow> cs = []"
  by (cases cs) simp_all

lemma consume_chunks_state:
  "messages s = ms @ [m] \<Longrightarrow>
   consume_chunks cs acc s =
     s\<lparr>messages := ms @ [if cs = [] then m
                          else \<lparr>role = Model, msg_text = last (accumulated cs acc)\<rparr>],
       transcripts := transcripts s
          @ map (\<lambda>a. ms @ [\<lparr>role = Model, msg_text = a\<rparr>]) (accumulated cs acc)\<rparr>"
proof (induction cs arbitrary: acc s m)
  case Nil
  then show ?case by simp
next
  case (Cons c cs)
  let ?a = "acc @ (case c of None \<Rightarrow> ''undefined'' | Some t \<Rightarrow> t)"
  let ?f = "\<lambda>prev. if prev = [] then prev
                   else prev[length prev - 1 := \<lparr>role = Model, msg_text = ?a\<rparr>]"
  have m1: "messages (setMessages ?f s) = ms @ [\<lparr>role = Model, msg_text = ?a\<rparr>]"
    using Cons.prems by simp
  from Cons.IH [OF m1, of ?a] Cons.prems show ?case
    by (simp add: Let_def setMessages_def)
qed

text \<open>
  C10. When a message is sent (non-blank input, not loading, a chat session present)
  and \<open>sendMessageStream\<close> rejects, the handler ends in exactly this state: the input
  box is cleared, the error is reported, loading was switched on and off, and the
  transcript took two values in turn, first with the user's message appended and then,
  by the failure branch, without its last entry. No placeholder was appended in
  between, so the entry removed is the user's own message and the transcript is back
  to what it was before sending. When the stream is obtained and fails later, the
  transcript gets the user's message, the placeholder and one value per chunk, the
  failure branch removes the (filled) placeholder, and the user's message stays.
\<close>

theorem send_rejected_drops_user_message:
  assumes "trim (userInput s) \<noteq> []" "\<not> isLoading s" "chat s"
  shows "handleSendMessage (SendRejected e) s =
           s\<lparr>userInput := [],
             transcripts := transcripts s
                @ [messages s @ [\<lparr>role = User, msg_text = trim (userInput s)\<rparr>], messages s],
             chat_errors := chat_errors s @ [displayErrorMsg (parseGeminiError e)],
             chat_loading := chat_loading s @ [True, False]\<rparr>
       \<and> handleSendMessage (Streamed cs (Some e)) s =
           s\<lparr>userInput := [],
             messages := messages s @ [\<lparr>role = User, msg_text = trim (userInput s)\<rparr>],
             transcripts := transcripts s
                @ [messages s @ [\<lparr>role = User, msg_text = trim (userInput s)\<rparr>],
                   messages s @ [\<lparr>role = User, msg_text = trim (userInput s)\<rparr>,
                                 \<lparr>role = Model, msg_text = ''...''\<rparr>]]
                @ map (\<lambda>a. messages s @ [\<lparr>role = User, msg_text = trim (userInput s)\<rparr>,
                                           \<lparr>role = Model, msg_text = a\<rparr>])
                      (accumulated cs [])
                @ [messages s @ [\<lparr>role = User, msg_text = trim (userInput s)\<rparr>]],
             chat_errors := chat_errors s @ [displayErrorMsg (parseGeminiError e)],
             chat_loading := chat_loading s @ [True, False]\<rparr>"
proof -
  let ?u = "\<lparr>role = User, msg_text = trim (userInput s)\<rparr>"
  let ?s1 = "(setMessages (\<lambda>prev. prev @ [?u]) (s\<lparr>userInput := []\<rparr>))
               \<lparr>isLoading := True, chat_loading := chat_loading s @ [True]\<rparr>"
  let ?s2 = "setMessages (\<lambda>prev. prev @ [\<lparr>role = Model, msg_text = ''...''\<rparr>]) ?s1"
  have m2: "messages ?s2 = (messages s @ [?u]) @ [\<lparr>role = Model, msg_text = ''...''\<rparr>]"
    by (simp add: setMessages_def)
  have rejected: "handleSendMessage (SendRejected e) s =
           s\<lparr>userInput := [],
             transcripts := transcripts s @ [messages s @ [?u], messages s],
             chat_errors := chat_errors s @ [displayErrorMsg (parseGeminiError e)],
             chat_loading := chat_loading s @ [True, False]\<rparr>"
    using assms by (simp add: handleSendMessage_def Let_def chat_failed_def setMessages_def)
  have streamed: "handleSendMessage (Streamed cs (Some e)) s =
       (chat_failed e (consume_chunks cs [] ?s2))
          \<lparr>isLoading := False,
           chat_loading := chat_loading (chat_failed e (consume_chunks cs [] ?s2)) @ [False]\<rparr>"
    using assms by (simp add: handleSendMessage_def Let_def)
  have cc: "consume_chunks cs [] ?s2 =
      s\<lparr>userInput := [], isLoading := True, chat_loading := chat_loading s @ [True],
        messages := messages s @ [?u, if cs = [] then \<lparr>role = Model, msg_text = ''...''\<rparr>
                                      else \<lparr>role = Model, msg_text = last (accumulated cs [])\<rparr>],
        transcripts := transcripts s
           @ [messages s @ [?u], messages s @ [?u, \<lparr>role = Model, msg_text = ''...''\<rparr>]]
           @ map (\<lambda>a. messages s @ [?u, \<lparr>role = Model, msg_text = a\<rparr>]) (accumulated cs [])\<rparr>"
    by (subst consume_chunks_state [OF m2]) (simp add: setMessages_def)
  note st = streamed [unfolded cc]
  show ?thesis
    using assms rejected st
    by (simp add: chat_failed_def setMessages_def butlast_append)
qed

theorem send_rejected_drops_user_message_witness:
  "trim (userInput typing_chat) \<noteq> [] \<and> \<not> isLoading typing_chat \<and> chat typing_chat
   \<and> messages (handleSendMessage (SendRejected plain_429_error) typing_chat)
       = [\<lparr>role = Model, msg_text = ''Hello''\<rparr>]
   \<and> transcripts (handleSendMessage (SendRejected plain_429_error) typing_chat)
       = [[\<lparr>role = Model, msg_text = ''Hello''\<rparr>, \<lparr>role = User, msg_text = ''What is a noun?''\<rparr>],
          [\<lparr>role = Model, msg_text = ''Hello''\<rparr>]]
   \<and> userInput (handleSendMessage (SendRejected plain_429_error) typing_chat) = []
   \<and> chat_errors (handleSendMessage (SendRejected plain_429_error) typing_chat)
       = [''Too Many Requests'']
   \<and> messages (handleSendMessage (Streamed [Some ''A noun''] (Some plain_429_error)) typing_chat)
       = [\<lparr>role = Model, msg_text = ''Hello''\<rparr>, \<lparr>role = User, msg_text = ''What is a noun?''\<rparr>]"
proof -
  have h1: "trim (userInput typing_chat) \<noteq> []" by code_simp
  have h2: "\<not> isLoading typing_chat" by code_simp
  have h3: "chat typing_chat" by code_simp
  have t: "trim (userInput typing_chat) = ''What is a noun?''" by code_simp
  have m: "messages typing_chat = [\<lparr>role = Model, msg_text = ''Hello''\<rparr>]"
    "transcripts typing_chat = []" "chat_errors typing_chat = []"
    by (simp_all add: typing_chat_def)
  have d: "displayErrorMsg (parseGeminiError plain_429_error) = ''Too Many Requests''"
    by code_simp
  show ?thesis
    using h1 h2 h3
      send_rejected_drops_user_message [OF h1 h2 h3, of plain_429_error "[Some ''A noun'']"]
    by (simp add: t m d)
qed


section \<open>Properties of the retry loops\<close>

subsection \<open>One pass through the loop body\<close>

declare word_loop.simps [simp del]

lemma on_error_indep:
  "calls w2 = calls w1 \<Longrightarrow>
   fst (on_error f retries i d e w1) = fst (on_error f retries i d e w2)
   \<and> fst (snd (on_error f retries i d e w1)) = fst (snd (on_error f retries i d e w2))
   \<and> calls (snd (snd (on_error f retries i d e w1))) = calls (snd (snd (on_error f retries i d e w2)))
   \<and> (sleeps w2 = sleeps w1 \<longrightarrow>
        sleeps (snd (snd (on_error f retries i d e w1))) = sleeps (snd (snd (on_error f retries i d e w2))))"
  by (auto simp: on_error_def Let_def addToast_def sleep_def setGeminiQuotaExhaustedCooldown_def
        clearTimeout_def split: if_splits option.splits)

lemma word_attempt_indep:
  "calls w2 = calls w1 \<Longrightarrow>
   fst (word_attempt P prov term retries i d w1) = fst (word_attempt P prov term retries i d w2)
   \<and> fst (snd (word_attempt P prov term retries i d w1)) = fst (snd (word_attempt P prov term retries i d w2))
   \<and> calls (snd (snd (word_attempt P prov term retries i d w1)))
       = calls (snd (snd (word_attempt P prov term retries i d w2)))
   \<and> (sleeps w2 = sleeps w1 \<longrightarrow>
        sleeps (snd (snd (word_attempt P prov term retries i d w1)))
          = sleeps (snd (snd (word_attempt P prov term retries i d w2))))"
proof (cases "decode_attempt P (prov (calls w1))")
  case (Inl e)
  assume c: "calls w2 = calls w1"
  have "calls (w2\<lparr>calls := Suc (calls w2)\<rparr>) = calls (w1\<lparr>calls := Suc (calls w1)\<rparr>)"
    using c by simp
  from on_error_indep [OF this, of "WordInfoLookup term" retries i d e] Inl c
  show ?thesis by (simp add: word_attempt_def Let_def)
next
  case (Inr data)
  assume c: "calls w2 = calls w1"
  with Inr show ?thesis
    by (simp add: word_attempt_def Let_def addToast_def sleep_def)
qed

lemma word_loop_Return:
  "i \<le> retries \<Longrightarrow> word_attempt P prov tm retries i d w = (Return r, d', w') \<Longrightarrow>
     word_loop P prov tm retries i d w = (Some r, w')"
  by (simp add: word_loop.simps)

lemma word_loop_Continue:
  "i \<le> retries \<Longrightarrow> word_attempt P prov tm retries i d w = (Continue, d', w') \<Longrightarrow>
     word_loop P prov tm retries i d w = word_loop P prov tm retries (i + 1) d' w'"
  by (simp add: word_loop.simps [of P prov tm retries i d w])

lemma word_loop_done:
  "\<not> i \<le> retries \<Longrightarrow> word_loop P prov tm retries i d w = (None, w)"
  by (simp add: word_loop.simps)

lemma word_loop_indep:
  "calls w2 = calls w1 \<Longrightarrow> sleeps w2 = sleeps w1 \<Longrightarrow>
   fst (word_loop P prov tm retries i d w1) = fst (word_loop P prov tm retries i d w2)
   \<and> calls (snd (word_loop P prov tm retries i d w1)) = calls (snd (word_loop P prov tm retries i d w2))
   \<and> sleeps (snd (word_loop P prov tm retries i d w1)) = sleeps (snd (word_loop P prov tm retries i d w2))"
proof (induction P prov tm retries i d w1 arbitrary: w2 rule: word_loop.induct)
  case (1 P prov tm retries i d w1)
  show ?case
  proof (cases "i \<le> retries")
    case False
    then show ?thesis using "1.prems" by (simp add: word_loop_done)
  next
    case True
    obtain c1 d1 v1 where a1: "word_attempt P prov tm retries i d w1 = (c1, d1, v1)"
      by (cases "word_attempt P prov tm retries i d w1") auto
    obtain c2 d2 v2 where a2': "word_attempt P prov tm retries i d w2 = (c2, d2, v2)"
      by (cases "word_attempt P prov tm retries i d w2") auto
    from word_attempt_indep [OF "1.prems"(1), of P prov tm retries i d] a1 a2' "1.prems"(2)
    have eq: "c2 = c1" "d2 = d1" "calls v2 = calls v1" "sleeps v2 = sleeps v1"
      by simp_all
    from a2' eq have a2: "word_attempt P prov tm retries i d w2 = (c1, d1, v2)"
      by simp
    show ?thesis
    proof (cases c1)
      case (Return r)
      from word_loop_Return [OF True a1 [unfolded Return]]
           word_loop_Return [OF True a2 [unfolded Return]] eq
      show ?thesis by simp
    next
      case Continue
      have "fst (word_loop P prov tm retries (i + 1) d1 v1) = fst (word_loop P prov tm retries (i + 1) d1 v2)
        \<and> calls (snd (word_loop P prov tm retries (i + 1) d1 v1)) = calls (snd (word_loop P prov tm retries (i + 1) d1 v2))
        \<and> sleeps (snd (word_loop P prov tm retries (i + 1) d1 v1)) = sleeps (snd (word_loop P prov tm retries (i + 1) d1 v2))"
        using "1.IH" [OF True a1 [symmetric] Continue refl, of v2] eq by simp
      with word_loop_Continue [OF True a1 [unfolded Continue]]
           word_loop_Continue [OF True a2 [unfolded Continue]]
      show ?thesis by simp
    qed
  qed
qed

lemma word_attempt_retryable:
  assumes "retryable P (prov (calls w))" "i < retries"
  shows "\<exists>w'. word_attempt P prov tm retries i d w = (Continue, d * 2, w')
           \<and> calls w' = Suc (calls w) \<and> sleeps w' = sleeps w @ [d]
           \<and> length (toasts w') = Suc (length (toasts w))
           \<and> isCurrentlyGeminiQuotaExhausted w' = isCurrentlyGeminiQuotaExhausted w"
  using assms
  by (auto simp: retryable_def word_attempt_def on_error_def Let_def addToast_def sleep_def
           split: sum.splits)

lemma word_loop_retries:
  "\<forall>k<n. retryable P (prov (calls w + k)) \<Longrightarrow> i + int n \<le> retries \<Longrightarrow>
   \<exists>w'. word_loop P prov tm retries i d w = word_loop P prov tm retries (i + int n) (d * 2 ^ n) w'
        \<and> calls w' = calls w + n
        \<and> sleeps w' = sleeps w @ map (\<lambda>k. d * 2 ^ k) [0..<n]
        \<and> length (toasts w') = length (toasts w) + n
        \<and> isCurrentlyGeminiQuotaExhausted w' = isCurrentlyGeminiQuotaExhausted w"
proof (induction n arbitrary: i d w)
  case 0
  have "word_loop P prov tm retries i d w = word_loop P prov tm retries (i + int 0) (d * 2 ^ 0) w"
    by simp
  then show ?case by (intro exI [of _ w]) simp
next
  case (Suc n)
  from Suc.prems have r0: "retryable P (prov (calls w))" and lt: "i < retries" and le: "i \<le> retries"
    by (auto dest: spec [of _ 0])
  from word_attempt_retryable [where P = P and prov = prov and w = w and tm = tm and d = d, OF r0 lt]
  obtain w1 where a: "word_attempt P prov tm retries i d w = (Continue, d * 2, w1)"
    and c1: "calls w1 = Suc (calls w)" and s1: "sleeps w1 = sleeps w @ [d]"
    and t1: "length (toasts w1) = Suc (length (toasts w))"
    and f1: "isCurrentlyGeminiQuotaExhausted w1 = isCurrentlyGeminiQuotaExhausted w"
    by blast
  have rest: "\<forall>k<n. retryable P (prov (calls w1 + k))"
    using Suc.prems(1) c1 by auto
  have bound: "(i + 1) + int n \<le> retries"
    using Suc.prems(2) by simp
  from Suc.IH [OF rest bound, of "d * 2"]
  obtain w' where l: "word_loop P prov tm retries (i + 1) (d * 2) w1
        = word_loop P prov tm retries (i + 1 + int n) (d * 2 * 2 ^ n) w'"
    and c: "calls w' = calls w1 + n"
    and sl: "sleeps w' = sleeps w1 @ map (\<lambda>k. d * 2 * 2 ^ k) [0..<n]"
    and t: "length (toasts w') = length (toasts w1) + n"
    and f: "isCurrentlyGeminiQuotaExhausted w' = isCurrentlyGeminiQuotaExhausted w1"
    by blast
  have m: "map (\<lambda>k. d * 2 ^ k) [0..<Suc n] = d # map (\<lambda>k. d * 2 * 2 ^ k) [0..<n]"
    by (simp add: map_upt_Suc del: upt_Suc)
  have "word_loop P prov tm retries i d w
          = word_loop P prov tm retries (i + int (Suc n)) (d * 2 ^ Suc n) w'"
    using word_loop_Continue [OF le a] l by (simp add: add.assoc mult.assoc)
  moreover have "sleeps w' = sleeps w @ map (\<lambda>k. d * 2 ^ k) [0..<Suc n]"
    using sl s1 m by simp
  ultimately show ?case
    using c c1 t t1 f f1 by auto
qed

lemma word_loop_success:
  "decode_attempt P (prov (calls w)) = Inr data \<Longrightarrow> \<not> fields_missing data \<Longrightarrow> i \<le> retries \<Longrightarrow>
     word_loop P prov tm retries i d w = (Some (Some data), w\<lparr>calls := Suc (calls w)\<rparr>)"
  by (rule word_loop_Return) (simp_all add: word_attempt_def Let_def)

lemma word_loop_last_missing:
  "decode_attempt P (prov (calls w)) = Inr data \<Longrightarrow> fields_missing data \<Longrightarrow>
     word_loop P prov tm retries retries d w
       = (Some (Some (JObj [(''term'', JStr tm)])),
          addToast (FieldsMissingAllFailed (WordInfoLookup tm)) Error (w\<lparr>calls := Suc (calls w)\<rparr>))"
  by (rule word_loop_Return) (simp_all add: word_attempt_def Let_def)

lemma word_loop_last_error:
  "decode_attempt P (prov (calls w)) = Inl e \<Longrightarrow> \<not> isQuotaExhaustedError (parseGeminiError e) \<Longrightarrow>
     word_loop P prov tm retries retries d w
       = (Some None,
          addToast (if isRateLimitErrorForRetry (parseGeminiError e)
                    then RateLimitFinal (WordInfoLookup tm)
                    else ErrorFinal (WordInfoLookup tm) (displayErrorMsg (parseGeminiError e)))
            Error (w\<lparr>calls := Suc (calls w)\<rparr>))"
  by (rule word_loop_Return) (simp_all add: word_attempt_def on_error_def Let_def)

lemma word_loop_quota:
  "decode_attempt P (prov (calls w)) = Inl e \<Longrightarrow> isQuotaExhaustedError (parseGeminiError e) \<Longrightarrow>
   i \<le> retries \<Longrightarrow>
     word_loop P prov tm retries i d w
       = (Some None,
          setGeminiQuotaExhaustedCooldown (Some (WordInfoLookup tm)) (w\<lparr>calls := Suc (calls w)\<rparr>))"
  by (rule word_loop_Return) (simp_all add: word_attempt_def on_error_def Let_def)

lemma loading_obs [simp]:
  "calls (setGlobalLoading b w) = calls w" "sleeps (setGlobalLoading b w) = sleeps w"
  "toasts (setGlobalLoading b w) = toasts w" "ai (setGlobalLoading b w) = ai w"
  "isCurrentlyGeminiQuotaExhausted (setGlobalLoading b w) = isCurrentlyGeminiQuotaExhausted w"
  by (simp_all add: setGlobalLoading_def)

lemma generateWordDetails_returned:
  "ai w \<Longrightarrow> \<not> isCurrentlyGeminiQuotaExhausted w \<Longrightarrow>
   word_loop P prov tm retries 0 d (setGlobalLoading True w) = (Some r, w') \<Longrightarrow>
   generateWordDetailsWithGemini P prov tm retries d w = (r, setGlobalLoading False w')"
  by (simp add: generateWordDetailsWithGemini_def)

lemma complete_not_null: "\<not> fields_missing data \<Longrightarrow> data \<noteq> JNull \<and> data \<noteq> JUndefined"
  by (auto simp: fields_missing_def)

lemma decode_rejected: "decode_attempt P (Rejected e) = Inl e"
  by (simp add: decode_attempt_def)

lemma decode_parsed:
  "P (response_json text_opt) = Inr data \<Longrightarrow> data \<noteq> JNull \<Longrightarrow> data \<noteq> JUndefined \<Longrightarrow>
     decode_attempt P (Resolved text_opt) = Inr data"
  by (simp add: decode_attempt_def)

lemma decode_unparsed:
  "P (response_json text_opt) = Inl e \<Longrightarrow> decode_attempt P (Resolved text_opt) = Inl e"
  by (simp add: decode_attempt_def)

lemma initial_obs [simp]:
  "ai (initial_world key) = key" "\<not> isCurrentlyGeminiQuotaExhausted (initial_world key)"
  "calls (initial_world key) = 0" "sleeps (initial_world key) = []"
  "toasts (initial_world key) = []"
  by (simp_all add: initial_world_def)

lemma network_error_transient: "\<not> isQuotaExhaustedError (parseGeminiError network_error)"
  by code_simp

lemma syntax_error_transient: "\<not> isQuotaExhaustedError (parseGeminiError syntax_error)"
  by code_simp

lemma fenced_reply_parsed: "example_JSON_parse (response_json (Some fenced_reply)) = Inr complete_word"
  by code_simp

lemma partial_reply_parsed:
  "example_JSON_parse (response_json (Some partial_word_text)) = Inr partial_word"
  by code_simp

lemma malformed_reply_unparsed:
  "example_JSON_parse (response_json (Some ''not json'')) = Inl syntax_error"
  by code_simp

lemma complete_word_complete: "\<not> fields_missing complete_word"
  by code_simp

lemma partial_word_missing: "fields_missing partial_word"
  by code_simp

lemma doubling_two: "map (\<lambda>k. (d :: int) * 2 ^ k) [0..<2] = [d, d * 2]"
  by (simp add: upt_rec)

subsection \<open>The whole call\<close>

text \<open>
  C4. With a credential present and the cooldown active at the call,
  \<open>generateWordDetailsWithGemini\<close> returns null without a provider call (and says so in
  one warning). The flag is read at that point only: the retry loop, from any index,
  makes the same provider calls, sleeps the same delays and returns the same value
  whatever the flag holds when an iteration starts.
\<close>

theorem cooldown_checked_once:
  "(ai w \<and> isCurrentlyGeminiQuotaExhausted w \<longrightarrow>
      fst (generateWordDetailsWithGemini P prov tm retries d w) = None
      \<and> calls (snd (generateWordDetailsWithGemini P prov tm retries d w)) = calls w
      \<and> toasts (snd (generateWordDetailsWithGemini P prov tm retries d w))
          = toasts w @ [(SkippedForQuota (WordInfoLookup tm), Warning)])
   \<and> fst (word_loop P prov tm retries i d (w\<lparr>isCurrentlyGeminiQuotaExhausted := b\<rparr>))
       = fst (word_loop P prov tm retries i d w)
   \<and> calls (snd (word_loop P prov tm retries i d (w\<lparr>isCurrentlyGeminiQuotaExhausted := b\<rparr>)))
       = calls (snd (word_loop P prov tm retries i d w))
   \<and> sleeps (snd (word_loop P prov tm retries i d (w\<lparr>isCurrentlyGeminiQuotaExhausted := b\<rparr>)))
       = sleeps (snd (word_loop P prov tm retries i d w))"
proof -
  have "calls w = calls (w\<lparr>isCurrentlyGeminiQuotaExhausted := b\<rparr>)"
       "sleeps w = sleeps (w\<lparr>isCurrentlyGeminiQuotaExhausted := b\<rparr>)"
    by simp_all
  from word_loop_indep [OF this, of P prov tm retries i d]
  show ?thesis
    by (simp add: generateWordDetailsWithGemini_def addToast_def)
qed

theorem cooldown_checked_once_witness:
  "ai (setGeminiQuotaExhaustedCooldown None (initial_world True))
   \<and> isCurrentlyGeminiQuotaExhausted (setGeminiQuotaExhaustedCooldown None (initial_world True))
   \<and> fst (generateWordDetailsWithGemini example_JSON_parse fails_twice_then_succeeds ''cat'' 2 1000
        (setGeminiQuotaExhaustedCooldown None (initial_world True))) = None
   \<and> calls (snd (generateWordDetailsWithGemini example_JSON_parse fails_twice_then_succeeds ''cat'' 2
        1000 (setGeminiQuotaExhaustedCooldown None (initial_world True)))) = 0
   \<and> fst (word_loop example_JSON_parse fails_twice_then_succeeds ''cat'' 2 0 1000
        (setGeminiQuotaExhaustedCooldown None (initial_world True))) = Some (Some complete_word)
   \<and> calls (snd (word_loop example_JSON_parse fails_twice_then_succeeds ''cat'' 2 0 1000
        (setGeminiQuotaExhaustedCooldown None (initial_world True)))) = 3"
proof -
  have h1: "ai (setGeminiQuotaExhaustedCooldown None (initial_world True))" by code_simp
  have h2: "isCurrentlyGeminiQuotaExhausted (setGeminiQuotaExhaustedCooldown None (initial_world True))"
    by (rule activate_sets_flag)
  have c: "calls (setGeminiQuotaExhaustedCooldown None (initial_world True)) = 0" by code_simp
  have r: "fst (word_loop example_JSON_parse fails_twice_then_succeeds ''cat'' 2 0 1000
        (setGeminiQuotaExhaustedCooldown None (initial_world True)
           \<lparr>isCurrentlyGeminiQuotaExhausted := False\<rparr>)) = Some (Some complete_word)"
    by code_simp
  have n: "calls (snd (word_loop example_JSON_parse fails_twice_then_succeeds ''cat'' 2 0 1000
        (setGeminiQuotaExhaustedCooldown None (initial_world True)
           \<lparr>isCurrentlyGeminiQuotaExhausted := False\<rparr>))) = 3"
    by code_simp
  show ?thesis
    using h1 h2 cooldown_checked_once [of "setGeminiQuotaExhaustedCooldown None (initial_world True)"
            example_JSON_parse fails_twice_then_succeeds "''cat''" 2 1000 0 False]
    by (simp add: c r n)
qed

text \<open>
  C5. If the first provider call of an invocation (credential present, cooldown
  inactive, a retry count that is not negative) raises an error classified as quota
  exhaustion, as an operation that raises one on every call does, the operation is
  called exactly once whatever the retry count, the result is null, no back-off delay
  is slept, and the cooldown is active on return.
\<close>

theorem quota_error_stops_retries:
  assumes "ai w" "\<not> isCurrentlyGeminiQuotaExhausted w" "0 \<le> retries"
    and "prov (calls w) = Rejected e" "isQuotaExhaustedError (parseGeminiError e)"
  shows "fst (generateWordDetailsWithGemini P prov tm retries d w) = None
       \<and> calls (snd (generateWordDetailsWithGemini P prov tm retries d w)) = Suc (calls w)
       \<and> sleeps (snd (generateWordDetailsWithGemini P prov tm retries d w)) = sleeps w
       \<and> isCurrentlyGeminiQuotaExhausted (snd (generateWordDetailsWithGemini P prov tm retries d w))"
proof -
  let ?w0 = "setGlobalLoading True w"
  have dec: "decode_attempt P (prov (calls ?w0)) = Inl e"
    using assms(4) by (simp add: decode_attempt_def)
  note l = word_loop_quota [where prov = prov and w = "?w0", OF dec assms(5,3)]
  from generateWordDetails_returned [OF assms(1,2) l]
  show ?thesis
    by (simp add: activate_sets_flag)
      (simp add: setGeminiQuotaExhaustedCooldown_def Let_def addToast_def clearTimeout_def
         setGlobalLoading_def split: option.splits)
qed

theorem quota_error_stops_retries_witness:
  "fst (generateWordDetailsWithGemini example_JSON_parse always_quota ''cat'' 2 7000
          (initial_world True)) = None
   \<and> calls (snd (generateWordDetailsWithGemini example_JSON_parse always_quota ''cat'' 2 7000
          (initial_world True))) = 1
   \<and> sleeps (snd (generateWordDetailsWithGemini example_JSON_parse always_quota ''cat'' 2 7000
          (initial_world True))) = []
   \<and> isCurrentlyGeminiQuotaExhausted
       (snd (generateWordDetailsWithGemini example_JSON_parse always_quota ''cat'' 2 7000
          (initial_world True)))"
proof -
  have h1: "ai (initial_world True)" by simp
  have h2: "\<not> isCurrentlyGeminiQuotaExhausted (initial_world True)" by simp
  have h3: "(0 :: int) \<le> 2" by simp
  have h4: "always_quota (calls (initial_world True)) = Rejected tagged_429_error"
    by (simp add: always_quota_def)
  have h5: "isQuotaExhaustedError (parseGeminiError tagged_429_error)" by code_simp
  show ?thesis
    using quota_error_stops_retries [where prov = always_quota and P = example_JSON_parse
            and tm = "''cat''" and d = 7000, OF h1 h2 h3 h4 h5]
    by simp
qed

text \<open>
  C6. If the first \<open>n\<close> provider calls (\<open>n\<close> at most the retry count) raise errors
  that are not quota exhaustion and call \<open>n + 1\<close> returns text that decodes to a
  record with all essential fields, the operation is called \<open>n + 1\<close> times, the result
  is that record, and the delays slept are \<open>initialDelay * 2 ^ k\<close> for
  \<open>k = 0, ..., n - 1\<close> in that order: the delay before retry \<open>k\<close> is
  \<open>initialDelay * 2 ^ (k - 1)\<close>. With retry count 2 and initial delay 1000 the delays
  are 1000 and 2000. The factor 2 is a literal in the source (\<open>currentDelay *= 2\<close>).
\<close>

theorem backoff_then_success:
  assumes "ai w" "\<not> isCurrentlyGeminiQuotaExhausted w" "int n \<le> retries"
    and "\<forall>k<n. \<exists>e. prov (calls w + k) = Rejected e \<and> \<not> isQuotaExhaustedError (parseGeminiError e)"
    and "prov (calls w + n) = Resolved text_opt" "P (response_json text_opt) = Inr data"
    and "\<not> fields_missing data"
  shows "fst (generateWordDetailsWithGemini P prov tm retries d w) = Some data
       \<and> calls (snd (generateWordDetailsWithGemini P prov tm retries d w)) = calls w + n + 1
       \<and> sleeps (snd (generateWordDetailsWithGemini P prov tm retries d w))
           = sleeps w @ map (\<lambda>k. d * 2 ^ k) [0..<n]"
proof -
  let ?w0 = "setGlobalLoading True w"
  have r: "\<forall>k<n. retryable P (prov (calls ?w0 + k))"
    using assms(4) by (auto simp: retryable_def decode_rejected)
  have b: "0 + int n \<le> retries" using assms(3) by simp
  from word_loop_retries [where prov = prov and w = "?w0", OF r b, of tm d]
  obtain w' where l: "word_loop P prov tm retries 0 d ?w0 = word_loop P prov tm retries (int n) (d * 2 ^ n) w'"
    and c: "calls w' = calls w + n"
    and s: "sleeps w' = sleeps w @ map (\<lambda>k. d * 2 ^ k) [0..<n]"
    by auto
  have dec: "decode_attempt P (prov (calls w')) = Inr data"
    using assms(5,6) complete_not_null [OF assms(7)] c by (simp add: decode_parsed)
  note fin = word_loop_success [where prov = prov and w = w', OF dec assms(7,3), of tm "d * 2 ^ n"]
  from generateWordDetails_returned [OF assms(1,2) l [unfolded fin]]
  show ?thesis using c s by simp
qed

theorem backoff_then_success_witness:
  "fst (generateWordDetailsWithGemini example_JSON_parse fails_twice_then_succeeds ''cat'' 2 1000
          (initial_world True)) = Some complete_word
   \<and> calls (snd (generateWordDetailsWithGemini example_JSON_parse fails_twice_then_succeeds ''cat'' 2
          1000 (initial_world True))) = 3
   \<and> sleeps (snd (generateWordDetailsWithGemini example_JSON_parse fails_twice_then_succeeds ''cat'' 2
          1000 (initial_world True))) = [1000, 2000]"
proof -
  have h1: "ai (initial_world True)" by simp
  have h2: "\<not> isCurrentlyGeminiQuotaExhausted (initial_world True)" by simp
  have h3: "int 2 \<le> 2" by simp
  have h4: "\<forall>k<2. \<exists>e. fails_twice_then_succeeds (calls (initial_world True) + k) = Rejected e
              \<and> \<not> isQuotaExhaustedError (parseGeminiError e)"
    by (simp add: fails_twice_then_succeeds_def network_error_transient)
  have h5: "fails_twice_then_succeeds (calls (initial_world True) + 2) = Resolved (Some fenced_reply)"
    by (simp add: fails_twice_then_succeeds_def)
  show ?thesis
    using backoff_then_success [where prov = fails_twice_then_succeeds and P = example_JSON_parse
            and tm = "''cat''" and d = 1000,
            OF h1 h2 h3 h4 h5 fenced_reply_parsed complete_word_complete]
    by (simp add: doubling_two)
qed

text \<open>
  C7, as amended. If every attempt up to and including the last returns text that
  decodes to a value other than \<open>null\<close> that lacks at least one of \<open>partOfSpeech\<close>,
  \<open>meaning\<close> and \<open>exampleSentence\<close> (missing, null, empty, zero or false), the result
  is the fallback object \<open>{ term }\<close> with only the query term, not null; every attempt
  was made, with the back-off delays in between.
\<close>

theorem incomplete_payload_fallback:
  assumes "ai w" "\<not> isCurrentlyGeminiQuotaExhausted w" "0 \<le> retries"
    and "\<forall>k\<le>nat retries. \<exists>text_opt data. prov (calls w + k) = Resolved text_opt
            \<and> P (response_json text_opt) = Inr data \<and> data \<noteq> JNull \<and> data \<noteq> JUndefined
            \<and> fields_missing data"
  shows "fst (generateWordDetailsWithGemini P prov tm retries d w) = Some (JObj [(''term'', JStr tm)])
       \<and> calls (snd (generateWordDetailsWithGemini P prov tm retries d w)) = calls w + nat retries + 1
       \<and> sleeps (snd (generateWordDetailsWithGemini P prov tm retries d w))
           = sleeps w @ map (\<lambda>k. d * 2 ^ k) [0..<nat retries]"
proof -
  let ?w0 = "setGlobalLoading True w"
  let ?n = "nat retries"
  have dec: "\<forall>k\<le>?n. \<exists>data. decode_attempt P (prov (calls w + k)) = Inr data \<and> fields_missing data"
    using assms(4) by (metis decode_parsed)
  have r: "\<forall>k<?n. retryable P (prov (calls ?w0 + k))"
  proof (intro allI impI)
    fix k assume "k < ?n"
    then have "k \<le> ?n" by simp
    with dec show "retryable P (prov (calls ?w0 + k))"
      by (auto simp: retryable_def)
  qed
  have b: "0 + int ?n \<le> retries" using assms(3) by simp
  from word_loop_retries [where prov = prov and w = "?w0", OF r b, of tm d]
  obtain w' where l: "word_loop P prov tm retries 0 d ?w0 = word_loop P prov tm retries (int ?n) (d * 2 ^ ?n) w'"
    and c: "calls w' = calls w + ?n"
    and s: "sleeps w' = sleeps w @ map (\<lambda>k. d * 2 ^ k) [0..<?n]"
    by auto
  from dec c obtain data where d1: "decode_attempt P (prov (calls w')) = Inr data"
    and d2: "fields_missing data"
    by auto
  have i: "int ?n = retries" using assms(3) by simp
  note fin = word_loop_last_missing [where prov = prov and w = w', OF d1 d2, of tm retries "d * 2 ^ ?n"]
  from generateWordDetails_returned [OF assms(1,2) l [unfolded i fin]]
  show ?thesis using c s by (simp add: addToast_def)
qed

theorem incomplete_payload_fallback_witness:
  "fst (generateWordDetailsWithGemini example_JSON_parse always_partial ''cat'' 2 7000
          (initial_world True)) = Some (JObj [(''term'', JStr ''cat'')])
   \<and> calls (snd (generateWordDetailsWithGemini example_JSON_parse always_partial ''cat'' 2 7000
          (initial_world True))) = 3
   \<and> sleeps (snd (generateWordDetailsWithGemini example_JSON_parse always_partial ''cat'' 2 7000
          (initial_world True))) = [7000, 14000]"
proof -
  have h1: "ai (initial_world True)" by simp
  have h2: "\<not> isCurrentlyGeminiQuotaExhausted (initial_world True)" by simp
  have h3: "(0 :: int) \<le> 2" by simp
  have p: "partial_word \<noteq> JNull \<and> partial_word \<noteq> JUndefined"
    by (simp add: partial_word_def)
  have h4: "\<forall>k\<le>nat 2. \<exists>text_opt data. always_partial (calls (initial_world True) + k) = Resolved text_opt
            \<and> example_JSON_parse (response_json text_opt) = Inr data \<and> data \<noteq> JNull
            \<and> data \<noteq> JUndefined \<and> fields_missing data"
    using partial_reply_parsed partial_word_missing p by (simp add: always_partial_def)
  show ?thesis
    using incomplete_payload_fallback [where prov = always_partial and P = example_JSON_parse
            and tm = "''cat''" and d = 7000, OF h1 h2 h3 h4]
    by (simp add: doubling_two)
qed

text \<open>
  C7 as stated fails: the text \<open>null\<close> decodes successfully to a value without any
  of the fields, the field test of line 414 then throws, the \<open>catch\<close> block treats the
  exception as an error, and after all three attempts the result is null.
\<close>

theorem null_payload_not_fallback_counterexample:
  "example_JSON_parse (response_json (Some ''null'')) = Inr JNull
   \<and> fields_missing JNull
   \<and> fst (generateWordDetailsWithGemini example_JSON_parse always_null ''cat'' 2 7000
            (initial_world True)) = None
   \<and> calls (snd (generateWordDetailsWithGemini example_JSON_parse always_null ''cat'' 2 7000
            (initial_world True))) = 3"
  by code_simp

text \<open>
  C8, as amended. Text that fails to decode is not returned to the caller: the
  exception of \<open>JSON.parse\<close> is caught by the same \<open>catch\<close> block as a provider error.
  If every attempt returns text that fails to decode (with an exception not classified
  as quota exhaustion), every attempt is made, with the back-off delays in between, and
  the result is null.
\<close>

theorem undecodable_text_is_retried:
  assumes "ai w" "\<not> isCurrentlyGeminiQuotaExhausted w" "0 \<le> retries"
    and "\<forall>k\<le>nat retries. \<exists>text_opt e. prov (calls w + k) = Resolved text_opt
            \<and> P (response_json text_opt) = Inl e
            \<and> \<not> isQuotaExhaustedError (parseGeminiError e)"
  shows "fst (generateWordDetailsWithGemini P prov tm retries d w) = None
       \<and> calls (snd (generateWordDetailsWithGemini P prov tm retries d w)) = calls w + nat retries + 1
       \<and> sleeps (snd (generateWordDetailsWithGemini P prov tm retries d w))
           = sleeps w @ map (\<lambda>k. d * 2 ^ k) [0..<nat retries]"
proof -
  let ?w0 = "setGlobalLoading True w"
  let ?n = "nat retries"
  have dec: "\<forall>k\<le>?n. \<exists>e. decode_attempt P (prov (calls w + k)) = Inl e
      \<and> \<not> isQuotaExhaustedError (parseGeminiError e)"
    using assms(4) by (metis decode_unparsed)
  have r: "\<forall>k<?n. retryable P (prov (calls ?w0 + k))"
  proof (intro allI impI)
    fix k assume "k < ?n"
    then have "k \<le> ?n" by simp
    with dec show "retryable P (prov (calls ?w0 + k))"
      by (auto simp: retryable_def)
  qed
  have b: "0 + int ?n \<le> retries" using assms(3) by simp
  from word_loop_retries [where prov = prov and w = "?w0", OF r b, of tm d]
  obtain w' where l: "word_loop P prov tm retries 0 d ?w0 = word_loop P prov tm retries (int ?n) (d * 2 ^ ?n) w'"
    and c: "calls w' = calls w + ?n"
    and s: "sleeps w' = sleeps w @ map (\<lambda>k. d * 2 ^ k) [0..<?n]"
    by auto
  from dec c obtain e where d1: "decode_attempt P (prov (calls w')) = Inl e"
    and d2: "\<not> isQuotaExhaustedError (parseGeminiError e)"
    by auto
  have i: "int ?n = retries" using assms(3) by simp
  note fin = word_loop_last_error [where prov = prov and w = w', OF d1 d2, of tm retries "d * 2 ^ ?n"]
  from generateWordDetails_returned [OF assms(1,2) l [unfolded i fin]]
  show ?thesis using c s by (simp add: addToast_def)
qed

theorem undecodable_text_is_retried_witness:
  "fst (generateWordDetailsWithGemini example_JSON_parse always_malformed ''cat'' 2 7000
          (initial_world True)) = None
   \<and> calls (snd (generateWordDetailsWithGemini example_JSON_parse always_malformed ''cat'' 2 7000
          (initial_world True))) = 3
   \<and> sleeps (snd (generateWordDetailsWithGemini example_JSON_parse always_malformed ''cat'' 2 7000
          (initial_world True))) = [7000, 14000]"
proof -
  have h1: "ai (initial_world True)" by simp
  have h2: "\<not> isCurrentlyGeminiQuotaExhausted (initial_world True)" by simp
  have h3: "(0 :: int) \<le> 2" by simp
  have h4: "\<forall>k\<le>nat 2. \<exists>text_opt e. always_malformed (calls (initial_world True) + k) = Resolved text_opt
            \<and> example_JSON_parse (response_json text_opt) = Inl e
            \<and> \<not> isQuotaExhaustedError (parseGeminiError e)"
    using malformed_reply_unparsed syntax_error_transient by (simp add: always_malformed_def)
  show ?thesis
    using undecodable_text_is_retried [where prov = always_malformed and P = example_JSON_parse
            and tm = "''cat''" and d = 7000, OF h1 h2 h3 h4]
    by (simp add: doubling_two)
qed

text \<open>
  C8 as stated fails: with one retry and a provider that returns the text "not json",
  the call goes through the retry branch (two calls, one sleep, a retry warning and a
  final error notification) and returns null, not the text.
\<close>

theorem undecodable_text_not_returned_counterexample:
  "fst (generateWordDetailsWithGemini example_JSON_parse always_malformed ''cat'' 1 7000 (initial_world True)) = None
   \<and> calls (snd (generateWordDetailsWithGemini example_JSON_parse always_malformed ''cat'' 1 7000 (initial_world True))) = 2
   \<and> sleeps (snd (generateWordDetailsWithGemini example_JSON_parse always_malformed ''cat'' 1 7000 (initial_world True))) = [7000]
   \<and> toasts (snd (generateWordDetailsWithGemini example_JSON_parse always_malformed ''cat'' 1 7000 (initial_world True)))
      = [(ErrorRetrying (WordInfoLookup ''cat'') 7000 ''Unexpected token o in JSON at position 1'', Warning),
         (ErrorFinal (WordInfoLookup ''cat'') ''Unexpected token o in JSON at position 1'', Error)]"
  by code_simp

lemma on_error_toasts:
  "if isQuotaExhaustedError (parseGeminiError e) \<and> isCurrentlyGeminiQuotaExhausted w
   then fst (on_error f retries i d e w) = Return None
        \<and> toasts (snd (snd (on_error f retries i d e w))) = toasts w
   else (\<exists>m t. toasts (snd (snd (on_error f retries i d e w))) = toasts w @ [(m, t)])"
  by (simp add: on_error_def Let_def addToast_def sleep_def setGeminiQuotaExhaustedCooldown_def
        clearTimeout_def split: option.splits)

text \<open>
  C9, as amended. Whatever the shared state is when a pass through the loop body runs,
  the pass hands exactly one notification to \<open>addToast\<close>, with two exceptions that hand
  none: the pass of the text variant that returns the decoded complete record (on the
  first or a later attempt), and, in both variants, a pass that ends in quota
  exhaustion while the cooldown is already active, because another call that was
  running at the same time activated it and the only notification of that branch is
  inside the guard of \<open>setGeminiQuotaExhaustedCooldown\<close>. The successful pass of the
  image variant hands one notification.
\<close>

theorem one_notification_per_pass:
  "(case decode_attempt P (prov (calls w)) of
      Inr data \<Rightarrow>
        if fields_missing data
        then (\<exists>m t. toasts (snd (snd (word_attempt P prov tm retries i d w)))
                       = toasts w @ [(m, t)])
        else fst (word_attempt P prov tm retries i d w) = Return (Some data)
             \<and> toasts (snd (snd (word_attempt P prov tm retries i d w))) = toasts w
    | Inl e \<Rightarrow>
        if isQuotaExhaustedError (parseGeminiError e) \<and> isCurrentlyGeminiQuotaExhausted w
        then fst (word_attempt P prov tm retries i d w) = Return None
             \<and> toasts (snd (snd (word_attempt P prov tm retries i d w))) = toasts w
        else (\<exists>m t. toasts (snd (snd (word_attempt P prov tm retries i d w)))
                       = toasts w @ [(m, t)]))
   \<and> (case iprov (calls w) of
        ImageResolved generatedImages \<Rightarrow>
          (\<exists>m t. toasts (snd (snd (image_attempt iprov tm retries i d w)))
                    = toasts w @ [(m, t)])
      | ImageRejected e \<Rightarrow>
          if isQuotaExhaustedError (parseGeminiError e) \<and> isCurrentlyGeminiQuotaExhausted w
          then fst (image_attempt iprov tm retries i d w) = Return None
               \<and> toasts (snd (snd (image_attempt iprov tm retries i d w))) = toasts w
          else (\<exists>m t. toasts (snd (snd (image_attempt iprov tm retries i d w)))
                         = toasts w @ [(m, t)]))"
proof -
  let ?w1 = "w\<lparr>calls := Suc (calls w)\<rparr>"
  have word: "(case decode_attempt P (prov (calls w)) of
      Inr data \<Rightarrow>
        if fields_missing data
        then (\<exists>m t. toasts (snd (snd (word_attempt P prov tm retries i d w)))
                       = toasts w @ [(m, t)])
        else fst (word_attempt P prov tm retries i d w) = Return (Some data)
             \<and> toasts (snd (snd (word_attempt P prov tm retries i d w))) = toasts w
    | Inl e \<Rightarrow>
        if isQuotaExhaustedError (parseGeminiError e) \<and> isCurrentlyGeminiQuotaExhausted w
        then fst (word_attempt P prov tm retries i d w) = Return None
             \<and> toasts (snd (snd (word_attempt P prov tm retries i d w))) = toasts w
        else (\<exists>m t. toasts (snd (snd (word_attempt P prov tm retries i d w)))
                       = toasts w @ [(m, t)]))"
  proof (cases "decode_attempt P (prov (calls w))")
    case (Inl e)
    with on_error_toasts [of e ?w1 "WordInfoLookup tm" retries i d] show ?thesis
      by (auto simp: word_attempt_def Let_def split: if_splits)
  next
    case (Inr data)
    then show ?thesis
      by (simp add: word_attempt_def Let_def addToast_def sleep_def)
  qed
  have img: "(case iprov (calls w) of
        ImageResolved generatedImages \<Rightarrow>
          (\<exists>m t. toasts (snd (snd (image_attempt iprov tm retries i d w)))
                    = toasts w @ [(m, t)])
      | ImageRejected e \<Rightarrow>
          if isQuotaExhaustedError (parseGeminiError e) \<and> isCurrentlyGeminiQuotaExhausted w
          then fst (image_attempt iprov tm retries i d w) = Return None
               \<and> toasts (snd (snd (image_attempt iprov tm retries i d w))) = toasts w
          else (\<exists>m t. toasts (snd (snd (image_attempt iprov tm retries i d w)))
                         = toasts w @ [(m, t)]))"
  proof (cases "iprov (calls w)")
    case (ImageRejected e)
    with on_error_toasts [of e ?w1 "WordImageGeneration tm" retries i d] show ?thesis
      by (auto simp: image_attempt_def Let_def split: if_splits)
  next
    case (ImageResolved g)
    then show ?thesis
      by (simp add: image_attempt_def Let_def addToast_def sleep_def split: option.splits)
  qed
  from word img show ?thesis by (rule conjI)
qed


theorem one_notification_per_pass_witness:
  "toasts (snd (snd (word_attempt example_JSON_parse always_quota ''cat'' 2 0 7000
       (setGeminiQuotaExhaustedCooldown None (initial_world True)))))
     = [(QuotaCooldownStarted None 15, Error)]
   \<and> (\<exists>m t. toasts (snd (snd (image_attempt image_ready ''cat'' 2 0 7000
                 (setGeminiQuotaExhaustedCooldown None (initial_world True)))))
               = [(QuotaCooldownStarted None 15, Error)] @ [(m, t)])"
proof -
  have d: "decode_attempt example_JSON_parse
             (always_quota (calls (setGeminiQuotaExhaustedCooldown None (initial_world True))))
           = Inl tagged_429_error"
    by code_simp
  have q: "isQuotaExhaustedError (parseGeminiError tagged_429_error)" by code_simp
  have f: "isCurrentlyGeminiQuotaExhausted (setGeminiQuotaExhaustedCooldown None (initial_world True))"
    by code_simp
  have t: "toasts (setGeminiQuotaExhaustedCooldown None (initial_world True))
             = [(QuotaCooldownStarted None 15, Error)]"
    by code_simp
  have g: "image_ready (calls (setGeminiQuotaExhaustedCooldown None (initial_world True)))
             = ImageResolved (Some [\<lparr>image = Some \<lparr>imageBytes = Some ''/9j/4AAQSkZJRg==''\<rparr>\<rparr>])"
    by (simp add: image_ready_def)
  show ?thesis
    using one_notification_per_pass [where P = example_JSON_parse and prov = always_quota
            and w = "setGeminiQuotaExhaustedCooldown None (initial_world True)"
            and tm = "''cat''" and retries = 2 and i = 0 and d = 7000 and iprov = image_ready]
    by (simp add: d q f t g)
qed

text \<open>
  C9 as stated fails: the image variant, succeeding on the first try, emits one
  notification (of type success).
\<close>

theorem image_success_notifies_counterexample:
  "fst (generateImageForWordWithGemini image_ready ''cat'' 1 8000 (initial_world True)) = Some ''/9j/4AAQSkZJRg==''
   \<and> calls (snd (generateImageForWordWithGemini image_ready ''cat'' 1 8000 (initial_world True))) = 1
   \<and> toasts (snd (generateImageForWordWithGemini image_ready ''cat'' 1 8000 (initial_world True)))
       = [(ImageCompleted (WordImageGeneration ''cat''), Success)]"
  by code_simp

end
